theory Spec2Isabelle
  imports Complex_Main
begin

section \<open>Errors and array primitives\<close>

text \<open>
  The Python exceptions the modelled functions can raise. Masses and intensities are
  modelled as real numbers; integer indices and counters as \<open>int\<close> or \<open>nat\<close>.
\<close>

datatype error = IndexError | ValueError string | KeyError string | TypeError | SpectrumIndexError

text \<open>Indexing an array with an array of (non-negative) indices; out of range raises.\<close>

fun np_take :: "'a list \<Rightarrow> nat list \<Rightarrow> error + 'a list" where
  "np_take xs [] = Inr []"
| "np_take xs (i # js) =
     (if i < length xs
      then (case np_take xs js of Inl e \<Rightarrow> Inl e | Inr ys \<Rightarrow> Inr (xs ! i # ys))
      else Inl IndexError)"

text \<open>\<open>np.argmin\<close>: the first index of the minimum; an empty array raises.\<close>

fun argmin_aux :: "real list \<Rightarrow> nat \<Rightarrow> nat \<Rightarrow> real \<Rightarrow> nat" where
  "argmin_aux [] i best bv = best"
| "argmin_aux (v # vs) i best bv =
     (if v < bv then argmin_aux vs (Suc i) i v else argmin_aux vs (Suc i) best bv)"

definition np_argmin :: "real list \<Rightarrow> error + nat" where
  "np_argmin xs =
     (case xs of
        [] \<Rightarrow> Inl (ValueError ''attempt to get argmin of an empty sequence'')
      | v # vs \<Rightarrow> Inr (argmin_aux vs 1 0 v))"

text \<open>\<open>np.where(mask)[0]\<close>: the positions where the mask holds.\<close>

fun np_where_from :: "nat \<Rightarrow> bool list \<Rightarrow> nat list" where
  "np_where_from i [] = []"
| "np_where_from i (b # bs) = (if b then i # np_where_from (Suc i) bs else np_where_from (Suc i) bs)"

definition np_where :: "bool list \<Rightarrow> nat list" where
  "np_where bs = np_where_from 0 bs"

section \<open>Nearest-value search\<close>

text \<open>
  Modelled from the spec: \<open>find_closest\<close> lives in the \<open>utils\<close> module, whose source is
  not available. The specification says that it finds, for every queried value,
  the nearest value of the array by absolute difference. The first such index is taken
  here; the index is 0 for an empty array, so that the caller's indexing raises.
\<close>

definition find_closest1 :: "real list \<Rightarrow> real \<Rightarrow> nat" where
  "find_closest1 x xq =
     (case map (\<lambda>v. \<bar>v - xq\<bar>) x of [] \<Rightarrow> 0 | d # ds \<Rightarrow> argmin_aux ds 1 0 d)"

definition find_closest :: "real list \<Rightarrow> real list \<Rightarrow> nat list" where
  "find_closest x xq = map (find_closest1 x) xq"

section \<open>Isotopic envelope search\<close>

definition dm :: real where
  "dm = 1.003355"

text \<open>\<open>mz_mono + np.arange(n_isotopes) * dm / q\<close>\<close>

definition mz_theoretic :: "real \<Rightarrow> int \<Rightarrow> int \<Rightarrow> real list" where
  "mz_theoretic mz_mono n_isotopes q =
     map (\<lambda>k. mz_mono + real k * dm / real_of_int q) [0 ..< nat n_isotopes]"

definition find_isotopic_distribution_aux ::
  "real list \<Rightarrow> real \<Rightarrow> int \<Rightarrow> int \<Rightarrow> real \<Rightarrow> error + nat list" where
  "find_isotopic_distribution_aux mz mz_ft q n_isotopes tol =
     (let mono_index = find_closest1 mz mz_ft in
      if mono_index < length mz then
        (let mz_mono = mz ! mono_index in
         if \<bar>mz_mono - mz_ft\<bar> > tol then Inr []
         else
           (let theo = mz_theoretic mz_mono n_isotopes q;
                closest_ind = find_closest mz theo in
            case np_take mz closest_ind of
              Inl e \<Rightarrow> Inl e
            | Inr near \<Rightarrow>
                np_take closest_ind
                  (np_where (map2 (\<lambda>a b. \<bar>a - b\<bar> \<le> tol) near theo))))
      else Inl IndexError)"

text \<open>
  The loop over the charge states \<open>range(1, q_max + 1)\<close>. The state is the pair
  (\<open>best_peaks\<close>, \<open>n_peaks\<close>); the body assigns \<open>best_peaks\<close> only.
\<close>

fun fid_loop ::
  "real list \<Rightarrow> real \<Rightarrow> int \<Rightarrow> real \<Rightarrow> int list \<Rightarrow> nat list \<times> nat \<Rightarrow> error + (nat list \<times> nat)" where
  "fid_loop mz mz_mono n_isotopes tol [] st = Inr st"
| "fid_loop mz mz_mono n_isotopes tol (q # qs) (best_peaks, n_peaks) =
     (case find_isotopic_distribution_aux mz mz_mono q n_isotopes tol of
        Inl e \<Rightarrow> Inl e
      | Inr tmp \<Rightarrow>
          fid_loop mz mz_mono n_isotopes tol qs
            (if length tmp > n_peaks then tmp else best_peaks, n_peaks))"

definition find_isotopic_distribution ::
  "real list \<Rightarrow> real \<Rightarrow> int \<Rightarrow> int \<Rightarrow> real \<Rightarrow> error + nat list" where
  "find_isotopic_distribution mz mz_mono q_max n_isotopes tol =
     (case fid_loop mz mz_mono n_isotopes tol [1 .. q_max] ([], 0) of
        Inl e \<Rightarrow> Inl e
      | Inr (best_peaks, n_peaks) \<Rightarrow> Inr best_peaks)"

section \<open>Further array primitives\<close>

text \<open>Indexing with a boolean mask; the mask must have the length of the array.\<close>

definition np_mask :: "'a list \<Rightarrow> bool list \<Rightarrow> error + 'a list" where
  "np_mask xs msk =
     (if length msk = length xs then Inr (map fst (filter snd (zip xs msk)))
      else Inl IndexError)"

text \<open>
  \<open>np.unique(xs, return_index=True, return_counts=True)\<close>: the sorted distinct values,
  the position of the first occurrence of each and the number of its occurrences.
\<close>

definition first_occurrence :: "nat list \<Rightarrow> nat \<Rightarrow> nat" where
  "first_occurrence xs v = length (takeWhile (\<lambda>x. x \<noteq> v) xs)"

definition np_unique :: "nat list \<Rightarrow> nat list \<times> nat list \<times> nat list" where
  "np_unique xs =
     (let u = sort (remdups xs)
      in (u, map (first_occurrence xs) u, map (count_list xs) u))"

text \<open>The Python slice \<open>xs[a:b]\<close> for non-negative bounds.\<close>

definition py_slice :: "'a list \<Rightarrow> nat \<Rightarrow> nat \<Rightarrow> 'a list" where
  "py_slice xs a b = take (b - a) (drop a xs)"

text \<open>\<open>np.setdiff1d(xs, ys)\<close>: the sorted distinct values of \<open>xs\<close> that are not in \<open>ys\<close>.\<close>

definition np_setdiff1d :: "nat list \<Rightarrow> nat list \<Rightarrow> nat list" where
  "np_setdiff1d xs ys = sort (remdups (filter (\<lambda>x. x \<notin> set ys) xs))"

text \<open>\<open>xs[idx] = vals\<close> for an index array and as many values; out of range raises.\<close>

fun np_put :: "'a list \<Rightarrow> nat list \<Rightarrow> 'a list \<Rightarrow> error + 'a list" where
  "np_put xs (i # js) (v # vs) =
     (if i < length xs then np_put (xs[i := v]) js vs else Inl IndexError)"
| "np_put xs js vs = Inr xs"

text \<open>\<open>xs[idx] = c\<close> for an index array and one value.\<close>

definition np_fill_at :: "'a list \<Rightarrow> nat list \<Rightarrow> 'a \<Rightarrow> error + 'a list" where
  "np_fill_at xs idx c = np_put xs idx (replicate (length idx) c)"

definition np_mean :: "real list \<Rightarrow> real" where
  "np_mean xs = sum_list xs / real (length xs)"

definition np_sum :: "real list \<Rightarrow> real" where
  "np_sum xs = sum_list xs"

section \<open>Mass matcher\<close>

text \<open>
  The loop of mode \<open>closest\<close> over the slots that several values matched, given as
  (\<open>index\<close>, \<open>count\<close>) pairs. It returns \<open>rm_index\<close>, \<open>mz_replace\<close> and \<open>spint_replace\<close>.
\<close>

fun closest_loop ::
  "real list \<Rightarrow> real list \<Rightarrow> real list \<Rightarrow> (nat \<times> nat) list \<Rightarrow>
     error + (nat list \<times> real list \<times> real list)" where
  "closest_loop dmz mz2 sp2 [] = Inr ([], [], [])"
| "closest_loop dmz mz2 sp2 ((index, count) # rest) =
     (case np_argmin (py_slice dmz index (index + count)) of
        Inl e \<Rightarrow> Inl e
      | Inr a \<Rightarrow>
          (let closest = a + index in
           if closest < length mz2 \<and> closest < length sp2 then
             (case closest_loop dmz mz2 sp2 rest of
                Inl e \<Rightarrow> Inl e
              | Inr (rm_index, mz_replace, spint_replace) \<Rightarrow>
                  Inr (np_setdiff1d [index ..< index + count] [closest] @ rm_index,
                       mz2 ! closest # mz_replace,
                       sp2 ! closest # spint_replace))
           else Inl IndexError))"

text \<open>
  The reduce functions are passed as values: a name or a callable. Calling a name that
  the constructor left unresolved raises.
\<close>

datatype reduce_arg = Str string | Callable "real list \<Rightarrow> real"

definition call_reduce :: "reduce_arg \<Rightarrow> real list \<Rightarrow> error + real" where
  "call_reduce f xs = (case f of Callable g \<Rightarrow> Inr (g xs) | Str s \<Rightarrow> Inl TypeError)"

text \<open>The loop of mode \<open>reduce\<close>, which writes into \<open>mz_match\<close> and \<open>sp_match\<close>.\<close>

fun reduce_loop ::
  "reduce_arg \<Rightarrow> reduce_arg \<Rightarrow> real list \<Rightarrow> real list \<Rightarrow>
     (nat \<times> nat) list \<Rightarrow> real list \<times> real list \<Rightarrow> error + (real list \<times> real list)" where
  "reduce_loop mz_reduce sp_reduce mz2 sp2 [] acc = Inr acc"
| "reduce_loop mz_reduce sp_reduce mz2 sp2 ((index, count) # rest) (mz_match, sp_match) =
     (case call_reduce mz_reduce (py_slice mz2 index (index + count)) of
        Inl e \<Rightarrow> Inl e
      | Inr m \<Rightarrow>
          (if index < length mz_match then
             (case call_reduce sp_reduce (py_slice sp2 index (index + count)) of
                Inl e \<Rightarrow> Inl e
              | Inr v \<Rightarrow>
                  (if index < length sp_match then
                     reduce_loop mz_reduce sp_reduce mz2 sp2 rest
                       (mz_match[index := m], sp_match[index := v])
                   else Inl IndexError))
           else Inl IndexError))"

text \<open>
  The result of \<open>_match_mz\<close>: (\<open>match_index\<close>, \<open>mz_match\<close>, \<open>sp_match\<close>, \<open>mz_no_match\<close>,
  \<open>sp_no_match\<close>).
\<close>

type_synonym match_result = "nat list \<times> real list \<times> real list \<times> real list \<times> real list"

definition match_finish ::
  "real list \<Rightarrow> real list \<Rightarrow> bool list \<Rightarrow> nat list \<Rightarrow> real list \<Rightarrow> real list \<Rightarrow>
     error + match_result" where
  "match_finish mz2 sp2 no_match_mask match_index mz_match sp_match =
     (case np_mask mz2 no_match_mask of
        Inl e \<Rightarrow> Inl e
      | Inr mz_no_match \<Rightarrow>
          (case np_mask sp2 no_match_mask of
             Inl e \<Rightarrow> Inl e
           | Inr sp_no_match \<Rightarrow>
               Inr (match_index, mz_match, sp_match, mz_no_match, sp_no_match)))"

definition match_multiple ::
  "real list \<Rightarrow> real list \<Rightarrow> real list \<Rightarrow> string \<Rightarrow> reduce_arg \<Rightarrow> reduce_arg \<Rightarrow>
     bool list \<Rightarrow> nat list \<Rightarrow> real list \<Rightarrow> real list \<Rightarrow> nat list \<Rightarrow> nat list \<Rightarrow>
     error + match_result" where
  "match_multiple dmz mz2 sp2 mode mz_reduce sp_reduce no_match_mask match_index mz_match
      sp_match first_index count_index =
     (if length first_index > 0 then
        (if mode = ''closest'' then
           (case closest_loop dmz mz2 sp2 (zip first_index count_index) of
              Inl e \<Rightarrow> Inl e
            | Inr (rm_index, mz_replace, spint_replace) \<Rightarrow>
                (case np_fill_at no_match_mask rm_index True of
                   Inl e \<Rightarrow> Inl e
                 | Inr no_match_mask' \<Rightarrow>
                     (case np_put mz_match first_index mz_replace of
                        Inl e \<Rightarrow> Inl e
                      | Inr mz_match' \<Rightarrow>
                          (case np_put sp_match first_index spint_replace of
                             Inl e \<Rightarrow> Inl e
                           | Inr sp_match' \<Rightarrow>
                               match_finish mz2 sp2 no_match_mask' match_index
                                 mz_match' sp_match'))))
         else if mode = ''reduce'' then
           (case reduce_loop mz_reduce sp_reduce mz2 sp2 (zip first_index count_index)
                   (mz_match, sp_match) of
              Inl e \<Rightarrow> Inl e
            | Inr (mz_match', sp_match') \<Rightarrow>
                match_finish mz2 sp2 no_match_mask match_index mz_match' sp_match')
         else Inl (ValueError ''mode must be `closest` or `merge`''))
      else match_finish mz2 sp2 no_match_mask match_index mz_match sp_match)"

definition match_mz ::
  "real list \<Rightarrow> real list \<Rightarrow> real list \<Rightarrow> real \<Rightarrow> string \<Rightarrow> reduce_arg \<Rightarrow> reduce_arg \<Rightarrow>
     error + match_result" where
  "match_mz mz1 mz2 sp2 tolerance mode mz_reduce sp_reduce =
     (let closest_index = find_closest mz1 mz2 in
      case np_take mz1 closest_index of
        Inl e \<Rightarrow> Inl e
      | Inr near \<Rightarrow>
          (let dmz = map2 (\<lambda>a b. \<bar>a - b\<bar>) near mz2;
               match_mask = map (\<lambda>d. d \<le> tolerance) dmz;
               no_match_mask = map Not match_mask
           in case np_mask closest_index match_mask of
                Inl e \<Rightarrow> Inl e
              | Inr match_index \<Rightarrow>
                  (case np_unique match_index of
                     (unique, first_index, count_index) \<Rightarrow>
                       (case np_mask sp2 match_mask of
                          Inl e \<Rightarrow> Inl e
                        | Inr sp2_matched \<Rightarrow>
                            (case np_take sp2_matched first_index of
                               Inl e \<Rightarrow> Inl e
                             | Inr sp_match \<Rightarrow>
                                 (case np_mask mz2 match_mask of
                                    Inl e \<Rightarrow> Inl e
                                  | Inr mz2_matched \<Rightarrow>
                                      (case np_take mz2_matched first_index of
                                         Inl e \<Rightarrow> Inl e
                                       | Inr mz_match \<Rightarrow>
                                           (let multiple_match_mask = map (\<lambda>c. c > 1) count_index
                                            in match_multiple dmz mz2 sp2 mode mz_reduce sp_reduce
                                                 no_match_mask unique mz_match sp_match
                                                 (map fst (filter snd (zip first_index multiple_match_mask)))
                                                 (map fst (filter snd (zip count_index multiple_match_mask)))))))))))"

section \<open>Trace tracker\<close>

text \<open>The fields a \<open>Chromatogram\<close> object gets from its constructor.\<close>

record chromatogram_obj =
  c_rt :: "real list"
  c_spint :: "real list"
  c_mz :: "real list"
  c_start :: nat
  c_end :: nat

definition Chromatogram :: "real list \<Rightarrow> real list \<Rightarrow> real list \<Rightarrow> chromatogram_obj" where
  "Chromatogram spint rt mz =
     \<lparr>c_rt = rt, c_spint = spint, c_mz = mz, c_start = 0, c_end = length rt\<rparr>"

text \<open>
  The state of a \<open>_RoiProcessor\<close>. The arrays \<open>_mz\<close> and \<open>_sp\<close> are lists of rows, one row
  per slot; \<open>rp_size\<close> is their number of columns, which an array without rows has too. The scan counts \<open>size\<close> and \<open>first_scan\<close> are natural numbers, as the
  driver passes them.
\<close>

record roi_processor =
  rp_mz_reduce :: reduce_arg
  rp_spint_reduce :: reduce_arg
  rp_first_scan :: nat
  rp_mz_mean :: "real list"
  rp_size :: nat
  rp_mz :: "real list list"
  rp_sp :: "real list list"
  rp_counter :: "real list"
  rp_missing :: "int list"
  rp_index :: nat
  rp_start :: "nat list"
  rp_roi :: "chromatogram_obj list"
  rp_max_missing :: int
  rp_min_length :: int
  rp_tolerance :: real
  rp_multiple_match :: string

text \<open>
  The constructor. The seed is a list, so the check that it is a vector always passes;
  the parameters follow in the order of the source.
\<close>

definition roi_processor_init ::
  "real list \<Rightarrow> nat \<Rightarrow> int \<Rightarrow> int \<Rightarrow> real \<Rightarrow> string \<Rightarrow> nat \<Rightarrow> reduce_arg \<Rightarrow> reduce_arg \<Rightarrow>
     error + roi_processor" where
  "roi_processor_init mz_seed sz max_missing min_length tolerance multiple_match first_scan
      mz_reduce sp_reduce =
     (if multiple_match \<notin> set [''closest'', ''reduce'']
      then Inl (ValueError ''Valid modes are closest or reduce'')
      else Inr
        \<lparr>rp_mz_reduce =
           (case mz_reduce of
              Str s \<Rightarrow> if s = ''mean'' then Callable np_mean else mz_reduce
            | Callable g \<Rightarrow> mz_reduce),
         rp_spint_reduce =
           (case sp_reduce of
              Str s \<Rightarrow>
                if s = ''mean'' then Callable np_mean
                else if s = ''sum'' then Callable np_sum
                else sp_reduce
            | Callable g \<Rightarrow> sp_reduce),
         rp_first_scan = first_scan,
         rp_mz_mean = mz_seed,
         rp_size = sz,
         rp_mz = replicate (length mz_seed) (replicate sz 0),
         rp_sp = replicate (length mz_seed) (replicate sz 0),
         rp_counter = replicate (length mz_seed) 1,
         rp_missing = replicate (length mz_seed) 0,
         rp_index = 0,
         rp_start = replicate (length mz_seed) 0,
         rp_roi = [],
         rp_max_missing = max_missing,
         rp_min_length = min_length,
         rp_tolerance = tolerance,
         rp_multiple_match = multiple_match\<rparr>)"

text \<open>
  \<open>arr[rows, col] = vals\<close> for an array of row indices and one column, on an array with
  \<open>ncols\<close> columns. The column is checked against the array whatever the rows are, also
  when there is no row index.
\<close>

fun put_rows :: "real list list \<Rightarrow> nat list \<Rightarrow> nat \<Rightarrow> real list \<Rightarrow> error + real list list" where
  "put_rows arr (i # js) col (v # vs) =
     (if i < length arr \<and> col < length (arr ! i)
      then put_rows (arr[i := (arr ! i)[col := v]]) js col vs
      else Inl IndexError)"
| "put_rows arr js col vs = Inr arr"

definition put_column ::
  "real list list \<Rightarrow> nat \<Rightarrow> nat list \<Rightarrow> nat \<Rightarrow> real list \<Rightarrow> error + real list list" where
  "put_column arr ncols rows col vals =
     (if col < ncols then put_rows arr rows col vals else Inl IndexError)"

definition add ::
  "roi_processor \<Rightarrow> real list \<Rightarrow> real list \<Rightarrow> error + (roi_processor \<times> real list \<times> real list)" where
  "add self mz sp =
     (case match_mz (rp_mz_mean self) mz sp (rp_tolerance self) (rp_multiple_match self)
             (rp_mz_reduce self) (rp_spint_reduce self) of
        Inl e \<Rightarrow> Inl e
      | Inr (match_index, mz_match, sp_match, mz_no_match, sp_no_match) \<Rightarrow>
     (case put_column (rp_mz self) (rp_size self) match_index (rp_index self) mz_match of
        Inl e \<Rightarrow> Inl e
      | Inr mz' \<Rightarrow>
     (case put_column (rp_sp self) (rp_size self) match_index (rp_index self) sp_match of
        Inl e \<Rightarrow> Inl e
      | Inr sp' \<Rightarrow>
     (case np_take (rp_mz_mean self) match_index of
        Inl e \<Rightarrow> Inl e
      | Inr means \<Rightarrow>
     (case np_take (rp_counter self) match_index of
        Inl e \<Rightarrow> Inl e
      | Inr counts \<Rightarrow>
     (let updated_mean =
            map (\<lambda>((m, c), x). (m * c + x) / (c + 1)) (zip (zip means counts) mz_match)
      in
     (case np_put (rp_counter self) match_index (map (\<lambda>c. c + 1) counts) of
        Inl e \<Rightarrow> Inl e
      | Inr counter' \<Rightarrow>
     (case np_put (rp_mz_mean self) match_index updated_mean of
        Inl e \<Rightarrow> Inl e
      | Inr mz_mean' \<Rightarrow>
     (case np_fill_at (map (\<lambda>m. m + 1) (rp_missing self)) match_index 0 of
        Inl e \<Rightarrow> Inl e
      | Inr missing' \<Rightarrow>
          Inr (self\<lparr>rp_mz := mz', rp_sp := sp', rp_counter := counter',
                    rp_mz_mean := mz_mean', rp_missing := missing',
                    rp_index := rp_index self + 1\<rparr>,
               mz_no_match, sp_no_match))))))))))"

text \<open>The chromatogram that \<open>append_to_roi\<close> builds for a completed row.\<close>

definition row_chromatogram :: "roi_processor \<Rightarrow> real list \<Rightarrow> nat \<Rightarrow> chromatogram_obj" where
  "row_chromatogram self rt row =
     (let start = rp_start self ! row;
          end_scan = rp_index self;
          rt_start = rp_first_scan self + start;
          rt_end = rp_first_scan self + end_scan
      in Chromatogram (py_slice (rp_sp self ! row) start end_scan)
           (py_slice rt rt_start rt_end)
           (py_slice (rp_mz self ! row) start end_scan))"

text \<open>The loop of \<open>append_to_roi\<close> over the completed rows.\<close>

fun completed_chromatograms ::
  "roi_processor \<Rightarrow> real list \<Rightarrow> nat list \<Rightarrow> error + chromatogram_obj list" where
  "completed_chromatograms self rt [] = Inr []"
| "completed_chromatograms self rt (row # rows) =
     (if row < length (rp_start self) \<and> row < length (rp_sp self) \<and> row < length (rp_mz self)
      then
        (case completed_chromatograms self rt rows of
           Inl e \<Rightarrow> Inl e
         | Inr chroms \<Rightarrow> Inr (row_chromatogram self rt row # chroms))
      else Inl IndexError)"

definition append_to_roi :: "roi_processor \<Rightarrow> real list \<Rightarrow> error + roi_processor" where
  "append_to_roi self rt =
     (let is_completed = map (\<lambda>m. m > rp_max_missing self) (rp_missing self);
          is_valid_roi =
            map (\<lambda>s. int (rp_index self) - int s \<ge> rp_min_length self) (rp_start self)
      in if length is_completed = length is_valid_roi then
           (case completed_chromatograms self rt
                   (np_where (map2 (\<and>) is_completed is_valid_roi)) of
              Inl e \<Rightarrow> Inl e
            | Inr chroms \<Rightarrow>
                Inr (self\<lparr>rp_roi := rp_roi self @ chroms,
                          rp_missing :=
                            map2 (\<lambda>c m. if c then 0 else m) is_completed (rp_missing self),
                          rp_start :=
                            map2 (\<lambda>c s. if c then rp_index self else s) is_completed
                              (rp_start self)\<rparr>))
         else Inl (ValueError ''operands could not be broadcast together''))"

definition flag_as_completed :: "roi_processor \<Rightarrow> roi_processor" where
  "flag_as_completed self =
     self\<lparr>rp_missing := replicate (length (rp_missing self)) (rp_max_missing self + 1)\<rparr>"

text \<open>
  One processor fed a sequence of scans the way the driver feeds it:
  \<open>processor.add(mz, spint)\<close> followed by \<open>processor.append_to_roi(rt)\<close> for every scan.
\<close>

fun feed_scans ::
  "roi_processor \<Rightarrow> real list \<Rightarrow> (real list \<times> real list) list \<Rightarrow> error + roi_processor" where
  "feed_scans self rt [] = Inr self"
| "feed_scans self rt ((mz, sp) # scans) =
     (case add self mz sp of
        Inl e \<Rightarrow> Inl e
      | Inr (self', mz_no_match, sp_no_match) \<Rightarrow>
          (case append_to_roi self' rt of
             Inl e \<Rightarrow> Inl e
           | Inr self'' \<Rightarrow> feed_scans self'' rt scans))"

section \<open>Scans\<close>

text \<open>
  A spectrum as the scan accessor supplies it: a retention time and the aligned arrays of
  masses (ascending) and intensities. An experiment is the list of its spectra;
  asking for a spectrum outside of it fails.
\<close>

record scan =
  getRT :: real
  peaks_mz :: "real list"
  peaks_int :: "real list"

definition getSpectrum :: "scan list \<Rightarrow> int \<Rightarrow> error + scan" where
  "getSpectrum msexp k =
     (if 0 \<le> k \<and> k < int (length msexp) then Inr (msexp ! nat k)
      else Inl SpectrumIndexError)"

text \<open>\<open>xs[i] = v\<close> for an integer index: a negative index counts from the end.\<close>

definition np_set :: "'a list \<Rightarrow> int \<Rightarrow> 'a \<Rightarrow> error + 'a list" where
  "np_set xs i v =
     (let n = int (length xs); j = (if i < 0 then i + n else i)
      in if 0 \<le> j \<and> j < n then Inr (xs[nat j := v]) else Inl IndexError)"

text \<open>
  \<open>np.searchsorted(a, v)\<close> for an ascending array: the position of the first element
  that is not smaller than \<open>v\<close>.
\<close>

definition np_searchsorted :: "real list \<Rightarrow> real \<Rightarrow> nat" where
  "np_searchsorted a v = length (takeWhile (\<lambda>x. x < v) a)"

text \<open>
  \<open>np.add.reduceat(a, ind)\<close>: entry \<open>k\<close> is the sum of \<open>a[ind[k]:ind[k+1]]\<close> when
  \<open>ind[k] < ind[k+1]\<close> and \<open>a[ind[k]]\<close> otherwise; the last entry is the sum of
  \<open>a[ind[-1]:]\<close>. An index outside of \<open>a\<close> raises.
\<close>

fun reduceat_vals :: "real list \<Rightarrow> nat list \<Rightarrow> real list" where
  "reduceat_vals a [] = []"
| "reduceat_vals a [i] = [sum_list (drop i a)]"
| "reduceat_vals a (i # j # ks) =
     (if i < j then sum_list (py_slice a i j) else a ! i) # reduceat_vals a (j # ks)"

definition add_reduceat :: "real list \<Rightarrow> int list \<Rightarrow> error + real list" where
  "add_reduceat a ind =
     (if list_all (\<lambda>i. 0 \<le> i \<and> i < int (length a)) ind
      then Inr (reduceat_vals a (map nat ind))
      else Inl IndexError)"

text \<open>The slice \<open>xs[::2]\<close>.\<close>

fun every_other :: "'a list \<Rightarrow> 'a list" where
  "every_other [] = []"
| "every_other [x] = [x]"
| "every_other (x # y # xs) = x # every_other xs"

section \<open>Extracted ion chromatograms\<close>

text \<open>
  The loop of \<open>chromatogram\<close> over the scans \<open>range(start, end)\<close>. The state is the pair
  (\<open>rt\<close>, \<open>chromatograms\<close>); the matrix \<open>chromatograms\<close>, of shape
  (\<open>mz.size\<close>, \<open>end - start\<close>), is held as the list of its columns.
\<close>

fun chromatogram_loop ::
  "scan list \<Rightarrow> real list \<Rightarrow> string \<Rightarrow> int list \<Rightarrow> real list \<times> real list list \<Rightarrow>
     error + (real list \<times> real list list)" where
  "chromatogram_loop msexp mz_intervals accumulator [] st = Inr st"
| "chromatogram_loop msexp mz_intervals accumulator (ksp # ksps) (rt, chromatograms) =
     (case getSpectrum msexp ksp of
        Inl e \<Rightarrow> Inl e
      | Inr sp \<Rightarrow>
     (case np_set rt ksp (getRT sp) of
        Inl e \<Rightarrow> Inl e
      | Inr rt' \<Rightarrow>
     (let mz_sp = peaks_mz sp;
          int_sp = peaks_int sp;
          ind_sp = map (\<lambda>v. int (np_searchsorted mz_sp v)) mz_intervals;
          ind_sp = map (\<lambda>i. if i \<ge> int (length int_sp) then int (length int_sp) - 1 else i) ind_sp
      in
     (case add_reduceat int_sp ind_sp of
        Inl e \<Rightarrow> Inl e
      | Inr red \<Rightarrow>
     (case np_set chromatograms ksp (every_other red) of
        Inl e \<Rightarrow> Inl e
      | Inr chromatograms' \<Rightarrow>
          if accumulator = ''mean'' then
            (let norm = map2 (\<lambda>hi lo. hi - lo) (every_other (tl ind_sp)) (every_other ind_sp);
                 norm = map (\<lambda>n. if n = 0 then 1 else n) norm
             in chromatogram_loop msexp mz_intervals accumulator ksps
                  (rt', chromatograms'
                          [nat ksp := map2 (\<lambda>c n. c / real_of_int n) (every_other red) norm]))
          else if accumulator = ''sum'' then
            chromatogram_loop msexp mz_intervals accumulator ksps (rt', chromatograms')
          else Inl (ValueError ''accumulator possible values are `mean` and `sum`.''))))))"

definition chromatogram ::
  "scan list \<Rightarrow> real list \<Rightarrow> real \<Rightarrow> int option \<Rightarrow> int option \<Rightarrow> string \<Rightarrow>
     error + (real list \<times> real list list)" where
  "chromatogram msexp mz window start_arg end_arg accumulator =
     (let mz_intervals = concat (map (\<lambda>m. [m - window, m + window]) mz);
          nsp = int (length msexp);
          start = (case start_arg of None \<Rightarrow> 0 | Some s \<Rightarrow> s);
          end_scan = (case end_arg of None \<Rightarrow> nsp | Some e \<Rightarrow> e)
      in if end_scan - start < 0 then Inl (ValueError ''negative dimensions are not allowed'')
         else chromatogram_loop msexp mz_intervals accumulator [start .. end_scan - 1]
                (replicate (nat (end_scan - start)) 0,
                 replicate (nat (end_scan - start)) (replicate (length mz) 0)))"

section \<open>Accumulated spectra\<close>

text \<open>\<open>a.min()\<close> and \<open>a.max()\<close>: an empty array raises.\<close>

definition np_min :: "real list \<Rightarrow> error + real" where
  "np_min xs =
     (case xs of
        [] \<Rightarrow> Inl (ValueError ''zero-size array to reduction operation minimum which has no identity'')
      | x # r \<Rightarrow> Inr (fold min r x))"

definition np_max :: "real list \<Rightarrow> error + real" where
  "np_max xs =
     (case xs of
        [] \<Rightarrow> Inl (ValueError ''zero-size array to reduction operation maximum which has no identity'')
      | x # r \<Rightarrow> Inr (fold max r x))"

definition np_diff :: "real list \<Rightarrow> real list" where
  "np_diff xs = map2 (\<lambda>b a. b - a) (tl xs) xs"

text \<open>
  \<open>np.arange(a, b, step)\<close> on floats: \<open>ceil((b - a) / step)\<close> values \<open>a + i * step\<close>;
  a step of zero raises.
\<close>

definition np_arange :: "real \<Rightarrow> real \<Rightarrow> real \<Rightarrow> error + real list" where
  "np_arange a b step =
     (if step = 0 then
        (if b = a then Inl (ValueError ''arange: cannot compute length'')
         else Inl (ValueError ''Maximum allowed size exceeded''))
      else Inr (map (\<lambda>i. a + real i * step) [0 ..< nat \<lceil>(b - a) / step\<rceil>]))"

text \<open>The loop of \<open>_get_mz_roi\<close> over the scans, counting into the bins of \<open>roi\<close>.\<close>

fun roi_loop :: "scan list \<Rightarrow> real list \<Rightarrow> int list \<Rightarrow> nat list \<Rightarrow> error + nat list" where
  "roi_loop msexp mz_ref [] roi = Inr roi"
| "roi_loop msexp mz_ref (k # ks) roi =
     (case getSpectrum msexp k of
        Inl e \<Rightarrow> Inl e
      | Inr sp \<Rightarrow>
          (let roi_index = map (np_searchsorted mz_ref) (peaks_mz sp)
           in case np_take roi roi_index of
                Inl e \<Rightarrow> Inl e
              | Inr old \<Rightarrow>
                  (case np_put roi roi_index (map (\<lambda>c. c + 1) old) of
                     Inl e \<Rightarrow> Inl e
                   | Inr roi' \<Rightarrow> roi_loop msexp mz_ref ks roi')))"

definition get_mz_roi :: "scan list \<Rightarrow> int \<times> int \<Rightarrow> error + real list" where
  "get_mz_roi ms_experiment scans =
     (case getSpectrum ms_experiment (fst scans) of
        Inl e \<Rightarrow> Inl e
      | Inr sp0 \<Rightarrow>
     (let mz_0 = peaks_mz sp0 in
     (case np_min mz_0 of
        Inl e \<Rightarrow> Inl e
      | Inr mz_min \<Rightarrow>
     (case np_max mz_0 of
        Inl e \<Rightarrow> Inl e
      | Inr mz_max \<Rightarrow>
     (case np_min (np_diff mz_0) of
        Inl e \<Rightarrow> Inl e
      | Inr mz_res \<Rightarrow>
     (case np_arange mz_min mz_max mz_res of
        Inl e \<Rightarrow> Inl e
      | Inr mz_ref \<Rightarrow>
     (case roi_loop ms_experiment mz_ref [fst scans .. snd scans - 1]
             (replicate (length mz_ref + 1) 0) of
        Inl e \<Rightarrow> Inl e
      | Inr roi \<Rightarrow> np_mask mz_ref (butlast (map (\<lambda>c. c \<noteq> 0) roi)))))))))"

text \<open>
  A float of the accumulated intensities: a number or NaN, which the mean of an empty
  slice is and which every subtraction propagates.
\<close>

datatype npfloat = Num real | NaN

fun nf_sub :: "npfloat \<Rightarrow> npfloat \<Rightarrow> npfloat" where
  "nf_sub (Num a) (Num b) = Num (a - b)"
| "nf_sub a b = NaN"

datatype accumulator_fn = NpSum | NpMean

definition accumulator_functions :: "string \<Rightarrow> accumulator_fn option" where
  "accumulator_functions = [''sum'' \<mapsto> NpSum, ''mean'' \<mapsto> NpMean]"

text \<open>\<open>accumulator(rows, axis=0)\<close> on a block of rows with \<open>ncols\<close> columns.\<close>

fun apply_axis0 :: "accumulator_fn \<Rightarrow> nat \<Rightarrow> real list list \<Rightarrow> npfloat list" where
  "apply_axis0 NpSum ncols rows =
     map (\<lambda>j. Num (sum_list (map (\<lambda>r. r ! j) rows))) [0 ..< ncols]"
| "apply_axis0 NpMean ncols rows =
     (if rows = [] then replicate ncols NaN
      else map (\<lambda>j. Num (sum_list (map (\<lambda>r. r ! j) rows) / real (length rows))) [0 ..< ncols])"

text \<open>The Python slice \<open>xs[a:b]\<close> for integer bounds: a negative bound counts from the end.\<close>

definition slice_bound :: "nat \<Rightarrow> int \<Rightarrow> nat" where
  "slice_bound n i = (if i < 0 then nat (max (i + int n) 0) else min (nat i) n)"

definition py_slice_int :: "'a list \<Rightarrow> int \<Rightarrow> int \<Rightarrow> 'a list" where
  "py_slice_int xs a b = py_slice xs (slice_bound (length xs) a) (slice_bound (length xs) b)"

text \<open>
  The interpolator \<open>scipy.interpolate.interp1d\<close> is a library function and a parameter
  here: given the masses and intensities of a scan, the kind and the reference grid, it
  returns the interpolated intensities or raises (\<open>None\<close>).
\<close>

type_synonym interpolator = "real list \<Rightarrow> real list \<Rightarrow> string \<Rightarrow> real list \<Rightarrow> real list option"

fun interp_loop ::
  "interpolator \<Rightarrow> scan list \<Rightarrow> string \<Rightarrow> real list \<Rightarrow> int list \<Rightarrow> error + real list list" where
  "interp_loop interp1d msexp kind mz_ref [] = Inr []"
| "interp_loop interp1d msexp kind mz_ref (scan_index # scan_indices) =
     (case getSpectrum msexp scan_index of
        Inl e \<Rightarrow> Inl e
      | Inr sp \<Rightarrow>
          (case interp1d (peaks_mz sp) (peaks_int sp) kind mz_ref of
             None \<Rightarrow> Inl (ValueError ''interp1d'')
           | Some row \<Rightarrow>
               if length row = length mz_ref then
                 (case interp_loop interp1d msexp kind mz_ref scan_indices of
                    Inl e \<Rightarrow> Inl e
                  | Inr rows \<Rightarrow> Inr (row # rows))
               else Inl (ValueError ''could not broadcast input array'')))"

definition accumulate_spectra ::
  "interpolator \<Rightarrow> scan list \<Rightarrow> int \<Rightarrow> int \<Rightarrow> (int \<times> int) option \<Rightarrow> string \<Rightarrow> string \<Rightarrow>
     error + (real list \<times> npfloat list)" where
  "accumulate_spectra interp1d msexp start end_scan subtract_arg kind accumulator_name =
     (case accumulator_functions accumulator_name of
        None \<Rightarrow> Inl (KeyError accumulator_name)
      | Some accumulator \<Rightarrow>
     (if (case subtract_arg of
            Some (left, right) \<Rightarrow> left > start \<or> right < end_scan
          | None \<Rightarrow> False)
      then Inl (ValueError ''subtract region outside scan region.'')
      else
     (let subtract = (case subtract_arg of Some p \<Rightarrow> p | None \<Rightarrow> (start, end_scan));
          rows = snd subtract - fst subtract
      in
     (case get_mz_roi msexp subtract of
        Inl e \<Rightarrow> Inl e
      | Inr mz_ref \<Rightarrow>
     (if rows < 0 then Inl (ValueError ''negative dimensions are not allowed'')
      else
     (case interp_loop interp1d msexp kind mz_ref [fst subtract .. snd subtract - 1] of
        Inl e \<Rightarrow> Inl e
      | Inr interp_int \<Rightarrow>
     (let start' = start - fst subtract;
          end' = end_scan - fst subtract;
          subtract' = (0, snd subtract - fst subtract);
          n = length mz_ref;
          accum_int =
            map2 nf_sub
              (map2 nf_sub
                 (apply_axis0 accumulator n (py_slice_int interp_int start' end'))
                 (apply_axis0 accumulator n (py_slice_int interp_int (fst subtract') start')))
              (apply_axis0 accumulator n (py_slice_int interp_int end' (snd subtract')))
      in Inr (mz_ref, accum_int))))))))"

section \<open>Matched values of a slot\<close>

text \<open>
  The value that a scan matches to slot \<open>i\<close> of a processor, if any: the entry of
  \<open>mz_match\<close> at the position of \<open>i\<close> in \<open>match_index\<close>.
\<close>

definition slot_match :: "roi_processor \<Rightarrow> real list \<Rightarrow> real list \<Rightarrow> nat \<Rightarrow> real option" where
  "slot_match self mz sp i =
     (case match_mz (rp_mz_mean self) mz sp (rp_tolerance self) (rp_multiple_match self)
             (rp_mz_reduce self) (rp_spint_reduce self) of
        Inl e \<Rightarrow> None
      | Inr (match_index, mz_match, sp_match, mz_no_match, sp_no_match) \<Rightarrow>
          map_of (zip match_index mz_match) i)"

text \<open>The values matched to slot \<open>i\<close> while a sequence of scans is fed, in order.\<close>

fun slot_matches ::
  "roi_processor \<Rightarrow> real list \<Rightarrow> (real list \<times> real list) list \<Rightarrow> nat \<Rightarrow> real list" where
  "slot_matches self rt [] i = []"
| "slot_matches self rt ((mz, sp) # scans) i =
     (case slot_match self mz sp i of None \<Rightarrow> [] | Some x \<Rightarrow> [x]) @
     (case add self mz sp of
        Inl e \<Rightarrow> []
      | Inr (self', mz_no_match, sp_no_match) \<Rightarrow>
          (case append_to_roi self' rt of
             Inl e \<Rightarrow> []
           | Inr self'' \<Rightarrow> slot_matches self'' rt scans i))"

section \<open>A tracked mass over eight scans\<close>

text \<open>
  One processor seeded with the mass 100 for eight scans, with \<open>max_missing = 1\<close>,
  \<open>min_length = 5\<close> and tolerance 0.005. The mass is present in the scans 0 to 4, absent
  from the scans 5 and 6, which hold the mass 150 only, and present again in scan 7.
\<close>

definition tracker_seeded :: "error + roi_processor" where
  "tracker_seeded =
     roi_processor_init [100] 8 1 5 0.005 ''closest'' 0 (Str ''mean'') (Str ''sum'')"

definition tracker_scans :: "(real list \<times> real list) list" where
  "tracker_scans =
     [([100.001], [10]), ([100.002], [12]), ([100.001], [14]), ([100], [12]),
      ([100.002], [10]), ([150], [3]), ([150], [3]), ([100.001], [11])]"

definition tracker_rt :: "real list" where
  "tracker_rt = [0, 1, 2, 3, 4, 5, 6, 7]"

text \<open>The processor after the first \<open>n\<close> scans.\<close>

definition tracker_after :: "nat \<Rightarrow> error + roi_processor" where
  "tracker_after n =
     (case tracker_seeded of
        Inl e \<Rightarrow> Inl e
      | Inr p \<Rightarrow> feed_scans p tracker_rt (take n tracker_scans))"

text \<open>The processor after the scans 0 to 5 and the \<open>add\<close> of scan 6.\<close>

definition tracker_stalled :: "error + roi_processor" where
  "tracker_stalled =
     (case tracker_after 6 of
        Inl e \<Rightarrow> Inl e
      | Inr p \<Rightarrow> map_sum id fst (add p [150] [3]))"

section \<open>Facts about the array primitives and the matcher\<close>

lemma np_take_Inr:
  "np_take xs idx = Inr ys \<Longrightarrow> ys = map ((!) xs) idx \<and> (\<forall>i\<in>set idx. i < length xs)"
  by (induction idx arbitrary: ys) (auto split: if_splits sum.splits)

lemma np_put_length: "np_put xs idx vals = Inr ys \<Longrightarrow> length ys = length xs"
  by (induction xs idx vals rule: np_put.induct) (auto split: if_splits)

lemma np_put_other: "np_put xs idx vals = Inr ys \<Longrightarrow> i \<notin> set idx \<Longrightarrow> ys ! i = xs ! i"
  by (induction xs idx vals rule: np_put.induct) (auto split: if_splits)

lemma np_put_nth:
  "np_put xs idx vals = Inr ys \<Longrightarrow> distinct idx \<Longrightarrow> length vals = length idx \<Longrightarrow>
   j < length idx \<Longrightarrow> ys ! (idx ! j) = vals ! j"
proof (induction xs idx vals arbitrary: j rule: np_put.induct)
  case (1 xs i js v vs)
  from "1.prems"(1) have lt: "i < length xs" and rest: "np_put (xs[i := v]) js vs = Inr ys"
    by (auto split: if_splits)
  show ?case
  proof (cases j)
    case 0
    from "1.prems"(2) have "i \<notin> set js" by simp
    with rest have "ys ! i = (xs[i := v]) ! i" by (rule np_put_other)
    with lt 0 show ?thesis by simp
  next
    case (Suc j')
    with "1.prems" have "ys ! (js ! j') = vs ! j'"
      using "1.IH"[OF lt rest, of j'] by simp
    with Suc show ?thesis by simp
  qed
qed simp_all

lemma reduce_loop_length:
  "reduce_loop r1 r2 mz2 sp2 ps (a, b) = Inr (a', b') \<Longrightarrow> length a' = length a \<and> length b' = length b"
  by (induction r1 r2 mz2 sp2 ps "(a, b)" arbitrary: a b rule: reduce_loop.induct)
     (auto split: if_splits sum.splits)

lemma match_finish_Inr:
  "match_finish mz2 sp2 nmm mi mzm spm = Inr (mi', mzm', spm', u, v) \<Longrightarrow>
   mi' = mi \<and> mzm' = mzm \<and> spm' = spm"
  by (auto simp: match_finish_def split: sum.splits)

lemma match_multiple_Inr:
  "match_multiple dmz mz2 sp2 mode r1 r2 nmm mi mzm spm fi ci = Inr (mi', mzm', spm', u, v) \<Longrightarrow>
   mi' = mi \<and> length mzm' = length mzm \<and> length spm' = length spm"
  unfolding match_multiple_def
  by (auto split: if_splits sum.splits prod.splits
        dest!: match_finish_Inr np_put_length reduce_loop_length)

lemma match_mz_Inr:
  "match_mz mz1 mz2 sp2 tol mode r1 r2 = Inr (mi, mzm, spm, u, v) \<Longrightarrow>
   distinct mi \<and> length mzm = length mi \<and> length spm = length mi"
  unfolding match_mz_def Let_def np_unique_def
  by (auto split: sum.splits prod.splits dest!: match_multiple_Inr np_take_Inr)

section \<open>One scan added to a processor\<close>

lemma add_slot:
  assumes a: "add self mz sp = Inr (self', nm1, nm2)"
    and len: "length (rp_counter self) = length (rp_mz_mean self)"
    and i: "i < length (rp_mz_mean self)"
  shows "length (rp_mz_mean self') = length (rp_mz_mean self)"
    and "length (rp_counter self') = length (rp_counter self)"
    and "slot_match self mz sp i = None \<Longrightarrow>
           rp_mz_mean self' ! i = rp_mz_mean self ! i \<and> rp_counter self' ! i = rp_counter self ! i"
    and "slot_match self mz sp i = Some x \<Longrightarrow>
           rp_mz_mean self' ! i
             = (rp_mz_mean self ! i * rp_counter self ! i + x) / (rp_counter self ! i + 1)
           \<and> rp_counter self' ! i = rp_counter self ! i + 1"
proof -
  from a obtain mi mzm spm means counts where
    m: "match_mz (rp_mz_mean self) mz sp (rp_tolerance self) (rp_multiple_match self)
          (rp_mz_reduce self) (rp_spint_reduce self) = Inr (mi, mzm, spm, nm1, nm2)"
    and tm: "np_take (rp_mz_mean self) mi = Inr means"
    and tc: "np_take (rp_counter self) mi = Inr counts"
    and pc: "np_put (rp_counter self) mi (map (\<lambda>c. c + 1) counts) = Inr (rp_counter self')"
    and pm: "np_put (rp_mz_mean self) mi
               (map (\<lambda>((m, c), x). (m * c + x) / (c + 1)) (zip (zip means counts) mzm))
             = Inr (rp_mz_mean self')"
    by (auto simp: add_def Let_def split: sum.splits prod.splits)
  from match_mz_Inr[OF m] have d: "distinct mi" and lm: "length mzm = length mi" by auto
  from np_take_Inr[OF tm] have means: "means = map ((!) (rp_mz_mean self)) mi" by simp
  from np_take_Inr[OF tc] have counts: "counts = map ((!) (rp_counter self)) mi" by simp
  have sm: "slot_match self mz sp i = map_of (zip mi mzm) i"
    by (simp add: slot_match_def m)
  show "length (rp_mz_mean self') = length (rp_mz_mean self)"
    using np_put_length[OF pm] .
  show "length (rp_counter self') = length (rp_counter self)"
    using np_put_length[OF pc] .
  {
    assume "slot_match self mz sp i = None"
    with sm have "map_of (zip mi mzm) i = None" by simp
    with lm have "i \<notin> set mi" using map_of_zip_is_None[of mi mzm i] by simp
    with np_put_other[OF pm] np_put_other[OF pc]
    show "rp_mz_mean self' ! i = rp_mz_mean self ! i \<and> rp_counter self' ! i = rp_counter self ! i"
      by simp
  }
  {
    assume "slot_match self mz sp i = Some x"
    with sm have "map_of (zip mi mzm) i = Some x" by simp
    then have "(i, x) \<in> set (zip mi mzm)" by (rule map_of_SomeD)
    then obtain j where j: "j < length mi" "mi ! j = i" "mzm ! j = x"
      by (auto simp: in_set_zip)
    have "rp_counter self' ! (mi ! j) = (map (\<lambda>c. c + 1) counts) ! j"
      using np_put_nth[OF pc d _ j(1)] by (simp add: counts)
    moreover have "rp_mz_mean self' ! (mi ! j)
        = (map (\<lambda>((m, c), x). (m * c + x) / (c + 1)) (zip (zip means counts) mzm)) ! j"
      using np_put_nth[OF pm d _ j(1)] by (simp add: counts means lm)
    ultimately show "rp_mz_mean self' ! i
             = (rp_mz_mean self ! i * rp_counter self ! i + x) / (rp_counter self ! i + 1)
           \<and> rp_counter self' ! i = rp_counter self ! i + 1"
      using j lm by (simp add: counts means)
  }
qed

lemma append_to_roi_mean:
  "append_to_roi self rt = Inr self' \<Longrightarrow>
   rp_mz_mean self' = rp_mz_mean self \<and> rp_counter self' = rp_counter self"
  by (auto simp: append_to_roi_def Let_def split: sum.splits if_splits)

lemma feed_scans_mean:
  "feed_scans self rt scans = Inr p \<Longrightarrow>
   length (rp_counter self) = length (rp_mz_mean self) \<Longrightarrow>
   i < length (rp_mz_mean self) \<Longrightarrow> 0 < rp_counter self ! i \<Longrightarrow>
   rp_counter p ! i = rp_counter self ! i + real (length (slot_matches self rt scans i))
   \<and> rp_mz_mean p ! i * rp_counter p ! i
       = rp_mz_mean self ! i * rp_counter self ! i + sum_list (slot_matches self rt scans i)"
proof (induction scans arbitrary: self)
  case Nil
  then show ?case by simp
next
  case (Cons scan scans)
  obtain mz sp where scan: "scan = (mz, sp)" by (cases scan)
  from Cons.prems(1) scan obtain s1 nm1 nm2 s2 where
    a: "add self mz sp = Inr (s1, nm1, nm2)"
    and ap: "append_to_roi s1 rt = Inr s2"
    and f: "feed_scans s2 rt scans = Inr p"
    by (auto split: sum.splits prod.splits)
  note st = add_slot[OF a Cons.prems(2) Cons.prems(3)]
  from append_to_roi_mean[OF ap] have eq: "rp_mz_mean s2 = rp_mz_mean s1" "rp_counter s2 = rp_counter s1"
    by simp_all
  have rest: "slot_matches self rt (scan # scans) i
      = (case slot_match self mz sp i of None \<Rightarrow> [] | Some x \<Rightarrow> [x]) @ slot_matches s2 rt scans i"
    by (simp add: scan a ap)
  have l2: "length (rp_counter s2) = length (rp_mz_mean s2)"
    using st(1,2) Cons.prems(2) eq by simp
  have i2: "i < length (rp_mz_mean s2)"
    using st(1) Cons.prems(3) eq by simp
  let ?tail = "slot_matches s2 rt scans i"
  show ?case
  proof (cases "slot_match self mz sp i")
    case None
    from st(3)[OF None] have same: "rp_mz_mean s1 ! i = rp_mz_mean self ! i"
      "rp_counter s1 ! i = rp_counter self ! i" by simp_all
    have pos2: "0 < rp_counter s2 ! i" using same eq Cons.prems(4) by simp
    note ih = Cons.IH[OF f l2 i2 pos2]
    have whole: "slot_matches self rt (scan # scans) i = ?tail"
      using rest None by simp
    have c: "rp_counter p ! i = rp_counter self ! i + real (length ?tail)"
      using ih[THEN conjunct1] eq same by simp
    have m: "rp_mz_mean p ! i * rp_counter p ! i
               = rp_mz_mean self ! i * rp_counter self ! i + sum_list ?tail"
      using ih[THEN conjunct2] eq same by simp
    show ?thesis unfolding whole using c m by (rule conjI)
  next
    case (Some x)
    from st(4)[OF Some] have upd:
      "rp_mz_mean s1 ! i = (rp_mz_mean self ! i * rp_counter self ! i + x) / (rp_counter self ! i + 1)"
      "rp_counter s1 ! i = rp_counter self ! i + 1" by simp_all
    have pos2: "0 < rp_counter s2 ! i" using upd(2) eq Cons.prems(4) by simp
    have prod: "rp_mz_mean s2 ! i * rp_counter s2 ! i = rp_mz_mean self ! i * rp_counter self ! i + x"
      using upd eq Cons.prems(4) by (simp add: field_simps)
    note ih = Cons.IH[OF f l2 i2 pos2]
    have whole: "slot_matches self rt (scan # scans) i = x # ?tail"
      using rest Some by simp
    have c: "rp_counter p ! i = rp_counter self ! i + real (length (x # ?tail))"
      using ih[THEN conjunct1] eq upd(2) by simp
    have m: "rp_mz_mean p ! i * rp_counter p ! i
               = rp_mz_mean self ! i * rp_counter self ! i + sum_list (x # ?tail)"
      using ih[THEN conjunct2] prod by simp
    show ?thesis unfolding whole using c m by (rule conjI)
  qed
qed

section \<open>Facts about the completed rows\<close>

lemma np_where_from_filter:
  "np_where_from i bs = map (\<lambda>j. j + i) (filter ((!) bs) [0 ..< length bs])"
proof (induction bs arbitrary: i)
  case Nil
  then show ?case by simp
next
  case (Cons b bs)
  have "[0 ..< length (b # bs)] = 0 # map Suc [0 ..< length bs]"
    by (simp add: upt_conv_Cons map_Suc_upt del: upt_Suc)
  then show ?case
    by (simp add: Cons.IH filter_map comp_def del: upt_Suc)
qed

lemma np_where_filter: "np_where bs = filter ((!) bs) [0 ..< length bs]"
  by (simp add: np_where_def np_where_from_filter)

lemma completed_chromatograms_Inr:
  "completed_chromatograms self rt rows = Inr cs \<Longrightarrow> cs = map (row_chromatogram self rt) rows"
  by (induction rows arbitrary: cs) (auto split: if_splits sum.splits)

section \<open>Errors of the accumulation steps\<close>

lemma np_take_Inl: "np_take xs idx = Inl e \<Longrightarrow> e = IndexError"
  by (induction idx) (auto split: if_splits sum.splits)

lemma np_put_Inl: "np_put xs idx vals = Inl e \<Longrightarrow> e = IndexError"
  by (induction xs idx vals rule: np_put.induct) (auto split: if_splits)

lemma roi_loop_Inl:
  "roi_loop msexp mz_ref ks roi = Inl e \<Longrightarrow> e = IndexError \<or> e = SpectrumIndexError"
proof (induction ks arbitrary: roi)
  case Nil
  then show ?case by simp
next
  case (Cons k ks)
  then show ?case
    by (auto simp: Let_def getSpectrum_def split: sum.splits if_splits
          dest: np_take_Inl np_put_Inl)
qed

lemma get_mz_roi_not_subtract_error:
  "get_mz_roi msexp scans \<noteq> Inl (ValueError ''subtract region outside scan region.'')"
proof
  assume a: "get_mz_roi msexp scans = Inl (ValueError ''subtract region outside scan region.'')"
  then show False
    unfolding get_mz_roi_def Let_def
    by (auto simp: getSpectrum_def np_min_def np_max_def np_arange_def np_mask_def
          split: sum.splits if_splits list.splits dest: roi_loop_Inl)
qed

lemma interp_loop_not_subtract_error:
  "interp_loop interp1d msexp kind mz_ref ks
     \<noteq> Inl (ValueError ''subtract region outside scan region.'')"
  by (induction ks) (auto simp: getSpectrum_def split: sum.splits option.splits if_splits)

section \<open>Facts about the reference grid\<close>

lemma fold_min_Min: "fold min r (x :: real) = Min (set (x # r))"
  by (rule Min.set_eq_fold[symmetric])

lemma fold_max_Max: "fold max r (x :: real) = Max (set (x # r))"
  by (rule Max.set_eq_fold[symmetric])

lemma np_put_map_nth:
  "np_put xs idx (map f idx) = Inr ys \<Longrightarrow> i \<in> set idx \<Longrightarrow> ys ! i = f i"
proof (induction idx arbitrary: xs)
  case Nil
  then show ?case by simp
next
  case (Cons h js)
  from Cons.prems(1) have lt: "h < length xs"
    and rest: "np_put (xs[h := f h]) js (map f js) = Inr ys"
    by (auto split: if_splits)
  show ?case
  proof (cases "i \<in> set js")
    case True
    then show ?thesis using Cons.IH[OF rest] by simp
  next
    case False
    with Cons.prems(2) have "i = h" by simp
    moreover from rest False \<open>i = h\<close> have "ys ! h = (xs[h := f h]) ! h"
      using np_put_other by metis
    ultimately show ?thesis using lt by simp
  qed
qed

lemma roi_loop_flags:
  "roi_loop msexp mz_ref ks roi = Inr roi' \<Longrightarrow>
   length roi' = length roi \<and>
   (\<forall>i < length roi.
      (roi' ! i \<noteq> 0)
        = (roi ! i \<noteq> 0
           \<or> (\<exists>k\<in>set ks. \<exists>v\<in>set (peaks_mz (msexp ! nat k)). np_searchsorted mz_ref v = i)))"
proof (induction ks arbitrary: roi)
  case Nil
  then show ?case by simp
next
  case (Cons k ks)
  let ?idx = "map (np_searchsorted mz_ref) (peaks_mz (msexp ! nat k))"
  from Cons.prems obtain old roi1 where
    sp: "getSpectrum msexp k = Inr (msexp ! nat k)"
    and old: "np_take roi ?idx = Inr old"
    and put: "np_put roi ?idx (map (\<lambda>c. c + 1) old) = Inr roi1"
    and rest: "roi_loop msexp mz_ref ks roi1 = Inr roi'"
    by (auto simp: Let_def getSpectrum_def split: sum.splits if_splits)
  from np_take_Inr[OF old] have oldm: "old = map ((!) roi) ?idx" by simp
  have put': "np_put roi ?idx (map (\<lambda>i. roi ! i + 1) ?idx) = Inr roi1"
    using put by (simp add: oldm comp_def)
  have l1: "length roi1 = length roi" using np_put_length[OF put] .
  have one: "(roi1 ! i \<noteq> 0) = (roi ! i \<noteq> 0 \<or> i \<in> set ?idx)" for i
  proof (cases "i \<in> set ?idx")
    case True
    with np_put_map_nth[OF put' True] show ?thesis by simp
  next
    case False
    with np_put_other[OF put' False] show ?thesis by simp
  qed
  from Cons.IH[OF rest] l1 have
    l: "length roi' = length roi"
    and ih: "\<forall>i < length roi. (roi' ! i \<noteq> 0)
        = (roi1 ! i \<noteq> 0
           \<or> (\<exists>k\<in>set ks. \<exists>v\<in>set (peaks_mz (msexp ! nat k)). np_searchsorted mz_ref v = i))"
    by simp_all
  show ?case
  proof (intro conjI allI impI)
    show "length roi' = length roi" by (rule l)
  next
    fix i assume "i < length roi"
    with ih have "(roi' ! i \<noteq> 0)
        = (roi1 ! i \<noteq> 0
           \<or> (\<exists>k\<in>set ks. \<exists>v\<in>set (peaks_mz (msexp ! nat k)). np_searchsorted mz_ref v = i))"
      by simp
    also have "\<dots> = (roi ! i \<noteq> 0
           \<or> (\<exists>k\<in>set (k # ks). \<exists>v\<in>set (peaks_mz (msexp ! nat k)). np_searchsorted mz_ref v = i))"
      unfolding one by auto
    finally show "(roi' ! i \<noteq> 0)
        = (roi ! i \<noteq> 0
           \<or> (\<exists>k\<in>set (k # ks). \<exists>v\<in>set (peaks_mz (msexp ! nat k)). np_searchsorted mz_ref v = i))" .
  qed
qed

lemma np_mask_filter:
  "length bs = length xs \<Longrightarrow>
   np_mask xs bs = Inr (map ((!) xs) (filter ((!) bs) [0 ..< length xs]))"
proof -
  assume len: "length bs = length xs"
  have "map fst (filter snd (zip xs bs)) = map ((!) xs) (filter ((!) bs) [0 ..< length xs])"
    using len
  proof (induction xs arbitrary: bs)
    case Nil
    then show ?case by simp
  next
    case (Cons x xs)
    then obtain b bs' where bs: "bs = b # bs'" by (cases bs) auto
    have up: "[0 ..< length (x # xs)] = 0 # map Suc [0 ..< length xs]"
      by (simp add: upt_conv_Cons map_Suc_upt del: upt_Suc)
    from Cons bs have "map fst (filter snd (zip xs bs')) = map ((!) xs) (filter ((!) bs') [0 ..< length xs])"
      by simp
    then show ?case
      unfolding up bs by (simp add: filter_map comp_def del: upt_Suc)
  qed
  with len show ?thesis by (simp add: np_mask_def)
qed


section \<open>Facts about the chromatogram loop\<close>

lemma np_set_Inr:
  "np_set xs k v = Inr ys \<Longrightarrow> 0 \<le> k \<Longrightarrow> k < int (length xs) \<and> ys = xs[nat k := v]"
  by (auto simp: np_set_def Let_def split: if_splits)

lemma np_set_Inl: "np_set xs k v = Inl e \<Longrightarrow> e = IndexError"
  by (auto simp: np_set_def Let_def split: if_splits)

lemma np_set_in_range:
  "0 \<le> k \<Longrightarrow> k < int (length xs) \<Longrightarrow> np_set xs k v = Inr (xs[nat k := v])"
  by (simp add: np_set_def Let_def)

lemma np_set_out_of_range:
  "int (length xs) \<le> k \<Longrightarrow> np_set xs k v = Inl IndexError"
  by (simp add: np_set_def Let_def)

lemma add_reduceat_Inl: "add_reduceat a ind = Inl e \<Longrightarrow> e = IndexError"
  by (auto simp: add_reduceat_def split: if_splits)

lemma chromatogram_loop_fails:
  "\<exists>k\<in>set ksps. int (length rt) \<le> k \<Longrightarrow> \<forall>k\<in>set ksps. 0 \<le> k \<Longrightarrow>
   isl (chromatogram_loop msexp ivs acc ksps (rt, chroms))"
proof (induction ksps arbitrary: rt chroms)
  case Nil
  then show ?case by simp
next
  case (Cons k ks)
  from Cons.prems(2) have k0: "0 \<le> k" and ks0: "\<forall>k\<in>set ks. 0 \<le> k" by simp_all
  show ?case
  proof (cases "int (length rt) \<le> k")
    case True
    then show ?thesis
      by (simp add: np_set_out_of_range split: sum.splits)
  next
    case False
    with Cons.prems(1) have ex: "\<exists>k\<in>set ks. int (length rt) \<le> k" by auto
    from False k0 have set: "np_set rt k v = Inr (rt[nat k := v])" for v
      by (simp add: np_set_in_range)
    have ih: "isl (chromatogram_loop msexp ivs acc ks (rt[nat k := v], c))" for v c
      using Cons.IH[of "rt[nat k := v]" c] ex ks0 by simp
    show ?thesis
      using ih by (auto simp add: set Let_def split: sum.splits)
  qed
qed

lemma chromatogram_loop_index_error:
  "\<exists>k\<in>set ksps. int (length rt) \<le> k \<Longrightarrow>
   \<forall>k\<in>set ksps. 0 \<le> k \<and> k < int (length msexp) \<Longrightarrow>
   length chroms = length rt \<Longrightarrow> acc = ''sum'' \<or> acc = ''mean'' \<Longrightarrow>
   chromatogram_loop msexp ivs acc ksps (rt, chroms) = Inl IndexError"
proof (induction ksps arbitrary: rt chroms)
  case Nil
  then show ?case by simp
next
  case (Cons k ks)
  from Cons.prems(2) have k0: "0 \<le> k" and kn: "k < int (length msexp)"
    and ks0: "\<forall>k\<in>set ks. 0 \<le> k \<and> k < int (length msexp)" by simp_all
  have sp: "getSpectrum msexp k = Inr (msexp ! nat k)"
    using k0 kn by (simp add: getSpectrum_def)
  show ?case
  proof (cases "int (length rt) \<le> k")
    case True
    then show ?thesis
      by (simp add: sp np_set_out_of_range)
  next
    case False
    with Cons.prems(1) have ex: "\<exists>k\<in>set ks. int (length rt) \<le> k" by auto
    from False k0 have set: "np_set rt k v = Inr (rt[nat k := v])" for v
      by (simp add: np_set_in_range)
    from False k0 Cons.prems(3) have setc: "np_set chroms k c = Inr (chroms[nat k := c])" for c
      by (simp add: np_set_in_range)
    have ih: "chromatogram_loop msexp ivs acc ks (rt[nat k := v], c) = Inl IndexError"
      if "length c = length rt" for v c
      using Cons.IH[of "rt[nat k := v]" c] ex ks0 that Cons.prems(4) by simp
    show ?thesis
      using Cons.prems(3,4) ih
      by (auto simp add: sp set setc Let_def split: sum.splits dest: add_reduceat_Inl)
  qed
qed


text \<open>
  The accumulator check of the chromatogram: reached in the first pass of the loop, never
  reached for an empty range.
\<close>

lemma chromatogram_accumulator_check:
  assumes "accumulator \<noteq> ''sum''" and "accumulator \<noteq> ''mean''"
  shows "(0 \<le> start \<and> start < end_scan - start \<and> start < int (length msexp)
            \<and> (peaks_int (msexp ! nat start) \<noteq> [] \<or> mz = [])
          \<longrightarrow> chromatogram msexp mz window (Some start) (Some end_scan) accumulator
                = Inl (ValueError ''accumulator possible values are `mean` and `sum`.''))
         \<and> chromatogram msexp mz window (Some start) (Some start) accumulator = Inr ([], [])"
proof (intro conjI impI)
  assume h: "0 \<le> start \<and> start < end_scan - start \<and> start < int (length msexp)
            \<and> (peaks_int (msexp ! nat start) \<noteq> [] \<or> mz = [])"
  let ?n = "nat (end_scan - start)"
  let ?rt = "replicate ?n (0 :: real)"
  let ?ch = "replicate ?n (replicate (length mz) (0 :: real))"
  let ?ivs = "concat (map (\<lambda>m. [m - window, m + window]) mz)"
  let ?sp = "msexp ! nat start"
  let ?ind = "map (\<lambda>i. if i \<ge> int (length (peaks_int ?sp)) then int (length (peaks_int ?sp)) - 1 else i)
                (map (\<lambda>v. int (np_searchsorted (peaks_mz ?sp) v)) ?ivs)"
  from h have ks: "[start .. end_scan - 1] = start # [start + 1 .. end_scan - 1]"
    by (simp add: upto_rec1)
  have unf: "chromatogram msexp mz window (Some start) (Some end_scan) accumulator
      = chromatogram_loop msexp ?ivs accumulator (start # [start + 1 .. end_scan - 1]) (?rt, ?ch)"
    using h by (simp add: chromatogram_def Let_def ks)
  have sp: "getSpectrum msexp start = Inr ?sp"
    using h by (simp add: getSpectrum_def)
  have srt: "np_set ?rt start v = Inr (?rt[nat start := v])" for v
    using h by (simp add: np_set_in_range)
  have sch: "np_set ?ch start c = Inr (?ch[nat start := c])" for c
    using h by (simp add: np_set_in_range)
  show "chromatogram msexp mz window (Some start) (Some end_scan) accumulator
                = Inl (ValueError ''accumulator possible values are `mean` and `sum`.'')"
    unfolding unf using assms h
    by (auto simp add: sp srt sch Let_def add_reduceat_def list_all_iff
          simp del: replicate.simps split: sum.splits if_splits)
next
  show "chromatogram msexp mz window (Some start) (Some start) accumulator = Inr ([], [])"
    by (simp add: chromatogram_def Let_def)
qed

section \<open>Facts about the charge loop\<close>

lemma fid_loop_n_peaks:
  "fid_loop mz mz_mono n_isotopes tol qs (best_peaks, n_peaks) = Inr (best_peaks', n_peaks') \<Longrightarrow>
   n_peaks' = n_peaks"
  by (induction qs arbitrary: best_peaks) (auto split: sum.splits)

section \<open>Charge-state selection of the isotopic envelope search\<close>

text \<open>
  C1. The envelope search is to return the candidates of the charge state with the
  largest number of matches, the first charge tested winning a tie. The loop never
  assigns \<open>n_peaks\<close>, so every charge with a non-empty result replaces the best one so
  far. For the masses 100, 100.4, 101.003355 and 102.00671, monoisotopic mass 100, two
  charges, three isotopes and tolerance 0.01, charge 1 matches three masses and charge 2
  matches two; the search returns the two candidates of charge 2.
\<close>

theorem find_isotopic_distribution_keeps_last_charge:
  "find_isotopic_distribution_aux [100, 100.4, 101.003355, 102.00671] 100 1 3 0.01
     = Inr [0, 2, 3]
   \<and> find_isotopic_distribution_aux [100, 100.4, 101.003355, 102.00671] 100 2 3 0.01
     = Inr [0, 2]
   \<and> find_isotopic_distribution [100, 100.4, 101.003355, 102.00671] 100 2 3 0.01
     = Inr [0, 2]"
  by code_simp

section \<open>Multiple matches of the mass matcher\<close>

text \<open>
  C2. In mode \<open>closest\<close> the matcher is to keep, for a slot that several new masses map
  to, the candidate nearest to the running mean and to return the others as unmatched.
  The positions of the duplicates are positions in the array of the matched values, and
  the loop uses them as positions in the array of all values. With running mean 100,
  tolerance 0.005 and new masses 99.9, 99.997 and 99.999, the kept match is 99.997
  although 99.999 is nearer, and 99.999 is not among the unmatched values. The example
  of the specification, with no unmatched mass before the duplicates, behaves as stated.
\<close>

theorem match_mz_closest_shifted_duplicates:
  "match_mz [100] [99.9, 99.997, 99.999] [5, 7, 9] 0.005 ''closest''
      (Callable np_mean) (Callable np_sum)
     = Inr ([0], [99.997], [7], [99.9], [5])
   \<and> match_mz [100] [100.001, 100.002] [7, 9] 0.005 ''closest''
        (Callable np_mean) (Callable np_sum)
     = Inr ([0], [100.001], [7], [100.002], [9])"
  by code_simp

section \<open>Empty windows of the chromatogram\<close>

text \<open>
  C4. In mode \<open>mean\<close> a window holding no mass of the scan is to give intensity 0. For
  two equal indices \<open>np.add.reduceat\<close> gives the element at that index and not an empty
  sum, so an empty window gets the intensity of the next mass of the scan. A scan with the
  masses 100 and 200 of intensities 10 and 20 has no mass within 1 of 150; the reported
  intensity is 20.
\<close>

theorem chromatogram_mean_empty_window:
  "chromatogram [\<lparr>getRT = 0.5, peaks_mz = [100, 200], peaks_int = [10, 20]\<rparr>]
      [150] 1 None None ''mean''
     = Inr ([0.5], [[20]])"
  by code_simp

section \<open>Accumulation without a subtract region\<close>

text \<open>
  C5. Without a subtract region the flanks are empty and are to contribute nothing. The
  mean of an empty block of rows is NaN, so in mode \<open>mean\<close> the accumulated intensity is
  NaN at every grid point. Here the interpolated intensity is 5 at every grid point of the
  only scan: mode \<open>sum\<close> gives 5 and mode \<open>mean\<close> gives NaN.
\<close>

theorem accumulate_spectra_mean_without_subtract:
  "accumulate_spectra (\<lambda>mz_scan int_scan kind grid. Some (map (\<lambda>x. 5) grid))
      [\<lparr>getRT = 0.5, peaks_mz = [100, 101, 102], peaks_int = [10, 20, 30]\<rparr>]
      0 1 None ''linear'' ''mean''
     = Inr ([100, 101], [NaN, NaN])
   \<and> accumulate_spectra (\<lambda>mz_scan int_scan kind grid. Some (map (\<lambda>x. 5) grid))
        [\<lparr>getRT = 0.5, peaks_mz = [100, 101, 102], peaks_int = [10, 20, 30]\<rparr>]
        0 1 None ''linear'' ''sum''
     = Inr ([100, 101], [Num 5, Num 5])"
  by code_simp

section \<open>Running mean of a slot\<close>

text \<open>
  C9. A match of the value \<open>x\<close> to a slot replaces the running mean \<open>mean\<close> of the slot by
  \<open>(mean * n + x) / (n + 1)\<close>, where \<open>n\<close> is the counter of the slot before the match, and
  increments the counter. A processor seeded with \<open>mz_seed\<close> and fed scans, the values
  \<open>x1, ..., xk\<close> being those matched to slot \<open>j\<close>, ends with the running mean
  \<open>(mz_seed[j] + x1 + ... + xk) / (k + 1)\<close> in slot \<open>j\<close>.
\<close>

theorem running_mean_incremental_average:
  "(add self mz sp = Inr (self', nm) \<and> length (rp_counter self) = length (rp_mz_mean self)
      \<and> i < length (rp_mz_mean self) \<and> slot_match self mz sp i = Some x
    \<longrightarrow> rp_mz_mean self' ! i
          = (rp_mz_mean self ! i * rp_counter self ! i + x) / (rp_counter self ! i + 1)
        \<and> rp_counter self' ! i = rp_counter self ! i + 1)
   \<and> (roi_processor_init mz_seed sz max_missing min_length tolerance multiple_match first_scan
         mz_reduce sp_reduce = Inr p0
       \<and> feed_scans p0 rt scans = Inr p \<and> j < length mz_seed
    \<longrightarrow> rp_mz_mean p ! j
          = (mz_seed ! j + sum_list (slot_matches p0 rt scans j))
              / (real (length (slot_matches p0 rt scans j)) + 1))"
proof (intro conjI impI)
  assume h: "add self mz sp = Inr (self', nm) \<and> length (rp_counter self) = length (rp_mz_mean self)
      \<and> i < length (rp_mz_mean self) \<and> slot_match self mz sp i = Some x"
  obtain nm1 nm2 where nm: "nm = (nm1, nm2)" by (cases nm)
  from h nm have a: "add self mz sp = Inr (self', nm1, nm2)" by simp
  from add_slot(4)[OF a] h
  show "rp_mz_mean self' ! i
          = (rp_mz_mean self ! i * rp_counter self ! i + x) / (rp_counter self ! i + 1)"
    and "rp_counter self' ! i = rp_counter self ! i + 1" by simp_all
next
  assume h: "roi_processor_init mz_seed sz max_missing min_length tolerance multiple_match first_scan
         mz_reduce sp_reduce = Inr p0
       \<and> feed_scans p0 rt scans = Inr p \<and> j < length mz_seed"
  then have p0: "rp_mz_mean p0 = mz_seed" "rp_counter p0 = replicate (length mz_seed) 1"
    by (auto simp: roi_processor_init_def split: if_splits)
  from h have f: "feed_scans p0 rt scans = Inr p" and j: "j < length mz_seed" by simp_all
  let ?xs = "slot_matches p0 rt scans j"
  have l0: "length (rp_counter p0) = length (rp_mz_mean p0)" using p0 by simp
  have j0: "j < length (rp_mz_mean p0)" using p0 j by simp
  have pos0: "0 < rp_counter p0 ! j" using p0 j by simp
  note run = feed_scans_mean[OF f l0 j0 pos0]
  have c: "rp_counter p ! j = 1 + real (length ?xs)"
    using run[THEN conjunct1] p0 j by simp
  have m: "rp_mz_mean p ! j * rp_counter p ! j = mz_seed ! j + sum_list ?xs"
    using run[THEN conjunct2] p0 j by simp
  have "rp_counter p ! j \<noteq> 0" using c by simp
  then have "rp_mz_mean p ! j = (mz_seed ! j + sum_list ?xs) / rp_counter p ! j"
    using m by (simp add: field_simps)
  then show "rp_mz_mean p ! j = (mz_seed ! j + sum_list ?xs) / (real (length ?xs) + 1)"
    using c by (simp add: add.commute)
qed

text \<open>
  In the eight scans of the tracked mass six values match slot 0; the first of them
  moves the mean from 100 to 100.0005, and the final mean is 700.007 / 7.
\<close>

theorem running_mean_incremental_average_witness:
  "\<not> isl tracker_seeded
   \<and> \<not> isl (add (projr tracker_seeded) [100.001] [10])
   \<and> slot_match (projr tracker_seeded) [100.001] [10] 0 = Some 100.001
   \<and> rp_mz_mean (fst (projr (add (projr tracker_seeded) [100.001] [10]))) ! 0
       = (100 * 1 + 100.001) / (1 + 1)
   \<and> \<not> isl (tracker_after 8)
   \<and> slot_matches (projr tracker_seeded) tracker_rt tracker_scans 0
       = [100.001, 100.002, 100.001, 100, 100.002, 100.001]
   \<and> rp_mz_mean (projr (tracker_after 8)) ! 0 = 700.007 / 7"
proof -
  have seeded: "\<not> isl tracker_seeded"
    by code_simp
  define q where "q = projr tracker_seeded"
  have q: "tracker_seeded = Inr q"
    unfolding q_def using seeded by simp
  have init: "roi_processor_init [100] 8 1 5 0.005 ''closest'' 0 (Str ''mean'') (Str ''sum'')
                = Inr q"
    using q unfolding tracker_seeded_def .
  have wf: "length (rp_counter q) = length (rp_mz_mean q)" "0 < length (rp_mz_mean q)"
    "rp_mz_mean q ! 0 = 100" "rp_counter q ! 0 = 1"
    using init by (auto simp: roi_processor_init_def)
  let ?a = "add q [100.001] [10]"
  have added: "\<not> isl (add (projr tracker_seeded) [100.001] [10])"
    by code_simp
  then have a: "?a = Inr (fst (projr ?a), snd (projr ?a))"
    by (simp add: q)
  have sm: "slot_match (projr tracker_seeded) [100.001] [10] 0 = Some 100.001"
    by code_simp
  then have sm': "slot_match q [100.001] [10] 0 = Some 100.001"
    by (simp add: q)
  have step: "rp_mz_mean (fst (projr ?a)) ! 0 = (100 * 1 + 100.001) / (1 + 1)"
    using running_mean_incremental_average
            [where self = q and mz = "[100.001]" and sp = "[10]"
               and self' = "fst (projr ?a)" and nm = "snd (projr ?a)" and i = 0
               and x = "100.001", THEN conjunct1]
          a sm' wf
    by simp
  have fed: "\<not> isl (tracker_after 8)"
    by code_simp
  have tk: "take 8 tracker_scans = tracker_scans"
    by (simp add: tracker_scans_def)
  have ta: "tracker_after 8 = feed_scans q tracker_rt tracker_scans"
    unfolding tracker_after_def tk by (simp add: q)
  have f: "feed_scans q tracker_rt tracker_scans = Inr (projr (tracker_after 8))"
    using fed unfolding ta by simp
  have ms: "slot_matches (projr tracker_seeded) tracker_rt tracker_scans 0
              = [100.001, 100.002, 100.001, 100, 100.002, 100.001]"
    by code_simp
  then have ms': "slot_matches q tracker_rt tracker_scans 0
              = [100.001, 100.002, 100.001, 100, 100.002, 100.001]"
    by (simp add: q)
  have "rp_mz_mean (projr (tracker_after 8)) ! 0
          = (([100] :: real list) ! 0 + sum_list (slot_matches q tracker_rt tracker_scans 0))
              / (real (length (slot_matches q tracker_rt tracker_scans 0)) + 1)"
    using running_mean_incremental_average
            [where mz_seed = "[100]" and sz = 8 and max_missing = 1 and min_length = 5
               and tolerance = "0.005" and multiple_match = "''closest''" and first_scan = 0
               and mz_reduce = "Str ''mean''" and sp_reduce = "Str ''sum''" and ?p0.0 = q
               and rt = tracker_rt and scans = tracker_scans
               and p = "projr (tracker_after 8)" and j = 0, THEN conjunct2]
          init f
    by simp
  then have run: "rp_mz_mean (projr (tracker_after 8)) ! 0 = 700.007 / 7"
    unfolding ms' by simp
  have step': "rp_mz_mean (fst (projr (add (projr tracker_seeded) [100.001] [10]))) ! 0
       = (100 * 1 + 100.001) / (1 + 1)"
    using step by (simp add: q)
  from seeded added sm step' fed ms run show ?thesis
    by blast
qed

section \<open>Finalization of stalled slots\<close>

text \<open>
  C3, as the claim states it: in the scenario of the tracked mass (present in the scans
  0 to 4, absent from the scans 5 and 6, \<open>max_missing = 1\<close>) the trace finalized after
  scan 6 would have length 5. The trace that the processor emits runs from the start
  offset of the slot to the current scan index and so includes the two missed scans: its
  length is 7.
\<close>

theorem tracker_trace_length_counterexample:
  "map_sum id (\<lambda>p. map (\<lambda>c. length (c_spint c)) (rp_roi p)) (tracker_after 7) = Inr [7]
   \<and> map_sum id (\<lambda>p. map (\<lambda>c. length (c_spint c)) (rp_roi p)) (tracker_after 7) \<noteq> Inr [5]"
  by code_simp

text \<open>
  C3, amended. \<open>append_to_roi\<close> emits a trace for exactly the slots whose miss counter
  exceeds \<open>max_missing\<close> and whose length, the current scan index minus the start offset
  of the slot and so including the trailing missed scans, is at least \<open>min_length\<close>.
  Every slot whose miss counter exceeds \<open>max_missing\<close>, emitted or not, restarts: its miss
  counter becomes 0 and its start offset the current scan index. Every other slot is
  left as it is. The emitted trace holds the buffer of the slot from its start offset to
  the current scan index. For the tracked mass nothing is emitted up to scan 5; after
  scan 6 one trace of length 7 is emitted, the five matched values followed by two zeros,
  and the slot restarts at offset 7, where scan 7 writes its match.
\<close>

theorem tracker_finalizes_stalled_slots:
  "(append_to_roi self rt = Inr self' \<longrightarrow>
      rp_roi self'
        = rp_roi self @
          map (row_chromatogram self rt)
            (filter
               (\<lambda>row. rp_missing self ! row > rp_max_missing self
                      \<and> int (rp_index self) - int (rp_start self ! row) \<ge> rp_min_length self)
               [0 ..< length (rp_missing self)])
      \<and> (\<forall>row < length (rp_missing self).
            if rp_missing self ! row > rp_max_missing self
            then rp_missing self' ! row = 0 \<and> rp_start self' ! row = rp_index self
            else rp_missing self' ! row = rp_missing self ! row
               \<and> rp_start self' ! row = rp_start self ! row))
   \<and> (row < length (rp_sp self) \<and> rp_index self \<le> length (rp_sp self ! row) \<longrightarrow>
        length (c_spint (row_chromatogram self rt row)) = rp_index self - rp_start self ! row)
   \<and> map_sum id rp_roi (tracker_after 6) = Inr []
   \<and> map_sum id rp_roi (tracker_after 7)
       = Inr [\<lparr>c_rt = [0, 1, 2, 3, 4, 5, 6],
               c_spint = [10, 12, 14, 12, 10, 0, 0],
               c_mz = [100.001, 100.002, 100.001, 100, 100.002, 0, 0],
               c_start = 0, c_end = 7\<rparr>]
   \<and> map_sum id (\<lambda>p. (rp_start p, rp_missing p, rp_index p)) (tracker_after 7) = Inr ([7], [0], 7)
   \<and> map_sum id (\<lambda>p. (rp_start p, rp_missing p, rp_index p, rp_mz p, length (rp_roi p)))
        (tracker_after 8)
       = Inr ([7], [0], 8, [[100.001, 100.002, 100.001, 100, 100.002, 0, 0, 100.001]], 1)"
proof (intro conjI impI)
  assume a: "append_to_roi self rt = Inr self'"
  let ?comp = "map (\<lambda>m. m > rp_max_missing self) (rp_missing self)"
  let ?valid = "map (\<lambda>s. int (rp_index self) - int s \<ge> rp_min_length self) (rp_start self)"
  from a have len: "length (rp_missing self) = length (rp_start self)"
    by (auto simp: append_to_roi_def Let_def split: if_splits)
  from a obtain cs where
    cs: "completed_chromatograms self rt (np_where (map2 (\<and>) ?comp ?valid)) = Inr cs"
    and roi: "rp_roi self' = rp_roi self @ cs"
    and mis: "rp_missing self' = map2 (\<lambda>c m. if c then 0 else m) ?comp (rp_missing self)"
    and st: "rp_start self' = map2 (\<lambda>c s. if c then rp_index self else s) ?comp (rp_start self)"
    by (auto simp: append_to_roi_def Let_def split: if_splits sum.splits)
  have "np_where (map2 (\<and>) ?comp ?valid)
      = filter (\<lambda>row. rp_missing self ! row > rp_max_missing self
                      \<and> int (rp_index self) - int (rp_start self ! row) \<ge> rp_min_length self)
               [0 ..< length (rp_missing self)]"
    unfolding np_where_filter using len
    by (auto intro!: filter_cong)
  with completed_chromatograms_Inr[OF cs] roi
  show "rp_roi self'
        = rp_roi self @
          map (row_chromatogram self rt)
            (filter
               (\<lambda>row. rp_missing self ! row > rp_max_missing self
                      \<and> int (rp_index self) - int (rp_start self ! row) \<ge> rp_min_length self)
               [0 ..< length (rp_missing self)])"
    by simp
  show "\<forall>row < length (rp_missing self).
            if rp_missing self ! row > rp_max_missing self
            then rp_missing self' ! row = 0 \<and> rp_start self' ! row = rp_index self
            else rp_missing self' ! row = rp_missing self ! row
               \<and> rp_start self' ! row = rp_start self ! row"
    using len by (simp add: mis st)
next
  assume "row < length (rp_sp self) \<and> rp_index self \<le> length (rp_sp self ! row)"
  then show "length (c_spint (row_chromatogram self rt row)) = rp_index self - rp_start self ! row"
    by (auto simp add: row_chromatogram_def Chromatogram_def py_slice_def Let_def min_def)
next
  show "map_sum id rp_roi (tracker_after 6) = Inr []"
    by code_simp
next
  show "map_sum id rp_roi (tracker_after 7)
       = Inr [\<lparr>c_rt = [0, 1, 2, 3, 4, 5, 6],
               c_spint = [10, 12, 14, 12, 10, 0, 0],
               c_mz = [100.001, 100.002, 100.001, 100, 100.002, 0, 0],
               c_start = 0, c_end = 7\<rparr>]"
    by code_simp
next
  show "map_sum id (\<lambda>p. (rp_start p, rp_missing p, rp_index p)) (tracker_after 7) = Inr ([7], [0], 7)"
    by code_simp
next
  show "map_sum id (\<lambda>p. (rp_start p, rp_missing p, rp_index p, rp_mz p, length (rp_roi p)))
        (tracker_after 8)
       = Inr ([7], [0], 8, [[100.001, 100.002, 100.001, 100, 100.002, 0, 0, 100.001]], 1)"
    by code_simp
qed

text \<open>The general part at the processor state after the \<open>add\<close> of scan 6.\<close>

theorem tracker_finalizes_stalled_slots_witness:
  "\<not> isl tracker_stalled
   \<and> \<not> isl (append_to_roi (projr tracker_stalled) tracker_rt)
   \<and> rp_missing (projr tracker_stalled) = [2]
   \<and> rp_max_missing (projr tracker_stalled) = 1
   \<and> rp_roi (projr (append_to_roi (projr tracker_stalled) tracker_rt))
       = [row_chromatogram (projr tracker_stalled) tracker_rt 0]
   \<and> length (c_spint (row_chromatogram (projr tracker_stalled) tracker_rt 0)) = 7
   \<and> rp_missing (projr (append_to_roi (projr tracker_stalled) tracker_rt)) ! 0 = 0
   \<and> rp_start (projr (append_to_roi (projr tracker_stalled) tracker_rt)) ! 0 = 7"
proof -
  define s where "s = projr tracker_stalled"
  define s' where "s' = projr (append_to_roi s tracker_rt)"
  have stalled: "\<not> isl tracker_stalled"
    by code_simp
  have "\<not> isl (append_to_roi (projr tracker_stalled) tracker_rt)"
    by code_simp
  then have ok: "\<not> isl (append_to_roi s tracker_rt)"
    by (simp add: s_def)
  then have a: "append_to_roi s tracker_rt = Inr s'"
    by (simp add: s'_def)
  have "(rp_missing (projr tracker_stalled), rp_max_missing (projr tracker_stalled),
         rp_index (projr tracker_stalled), rp_start (projr tracker_stalled),
         rp_min_length (projr tracker_stalled), rp_roi (projr tracker_stalled),
         map length (rp_sp (projr tracker_stalled)))
        = ([2], 1, 7, [0], 5, [], [8])"
    by code_simp
  then have st: "rp_missing s = [2]" "rp_max_missing s = 1" "rp_index s = 7" "rp_start s = [0]"
    "rp_min_length s = 5" "rp_roi s = []" "map length (rp_sp s) = [8]"
    by (simp_all add: s_def)
  from st(7) have sp: "0 < length (rp_sp s)" "rp_index s \<le> length (rp_sp s ! 0)"
    by (auto simp: st(3) map_eq_Cons_conv)
  note fin = tracker_finalizes_stalled_slots[where self = s and rt = tracker_rt and self' = s'
      and row = 0]
  from fin[THEN conjunct1] a st
  have roi: "rp_roi s' = [row_chromatogram s tracker_rt 0]"
    and after: "rp_missing s' ! 0 = 0" "rp_start s' ! 0 = 7"
    by simp_all
  from fin[THEN conjunct2, THEN conjunct1] sp st
  have len: "length (c_spint (row_chromatogram s tracker_rt 0)) = 7"
    by simp
  from stalled ok st(1,2) roi len after show ?thesis
    unfolding s'_def s_def by blast
qed

section \<open>Validation of the subtract region\<close>

text \<open>
  C6, as the claim states it: with a subtract region, \<open>accumulate_spectra\<close> would fail
  with an invalid-argument error exactly when \<open>subtract[0] > start\<close> or
  \<open>subtract[1] < end\<close>. A call whose subtract region holds the accumulation region can
  fail with a \<open>ValueError\<close> all the same: the region (10, 30) with \<open>start = 15\<close>,
  \<open>end = 25\<close> and scans of a single peak fails when the smallest spacing of the first
  scan is taken, and the reversed region (30, 10) with \<open>start = 30\<close>, \<open>end = 10\<close> passes
  the check and fails when the rows are allocated. With the accumulator \<open>max\<close> the
  region (16, 30), which does not hold \<open>start = 15\<close>, fails with a \<open>KeyError\<close> before
  the check.
\<close>

theorem accumulate_spectra_contained_region_counterexample:
  "accumulate_spectra (\<lambda>mz_scan int_scan kind grid. Some (map (\<lambda>x. 5) grid))
      (replicate 30 \<lparr>getRT = 0.5, peaks_mz = [100], peaks_int = [10]\<rparr>)
      15 25 (Some (10, 30)) ''linear'' ''sum''
     = Inl (ValueError ''zero-size array to reduction operation minimum which has no identity'')
   \<and> accumulate_spectra (\<lambda>mz_scan int_scan kind grid. Some (map (\<lambda>x. 5) grid))
        (replicate 31 \<lparr>getRT = 0.5, peaks_mz = [100, 101, 102], peaks_int = [10, 20, 30]\<rparr>)
        30 10 (Some (30, 10)) ''linear'' ''sum''
     = Inl (ValueError ''negative dimensions are not allowed'')
   \<and> accumulate_spectra (\<lambda>mz_scan int_scan kind grid. Some (map (\<lambda>x. 5) grid))
        (replicate 30 \<lparr>getRT = 0.5, peaks_mz = [100, 101, 102], peaks_int = [10, 20, 30]\<rparr>)
        15 25 (Some (16, 30)) ''linear'' ''max''
     = Inl (KeyError ''max'')"
  by code_simp

text \<open>
  C6, amended. With a subtract region (\<open>left\<close>, \<open>right\<close>), \<open>accumulate_spectra\<close> raises the
  error of the subtract check exactly when the accumulator is \<open>sum\<close> or \<open>mean\<close> and
  \<open>left > start\<close> or \<open>right < end\<close>; no later step raises this error. With any other
  accumulator name the call fails with a \<open>KeyError\<close>, whatever the region. The region
  (10, 30) passes the check for \<open>start = 15\<close> and \<open>end = 25\<close>; the region (16, 30) is
  rejected.
\<close>

theorem accumulate_spectra_subtract_check:
  "(accumulate_spectra interp1d msexp start end_scan (Some (left, right)) kind accumulator_name
      = Inl (ValueError ''subtract region outside scan region.''))
     = ((accumulator_name = ''sum'' \<or> accumulator_name = ''mean'')
        \<and> (left > start \<or> right < end_scan))
   \<and> (accumulator_name \<noteq> ''sum'' \<and> accumulator_name \<noteq> ''mean''
        \<longrightarrow> accumulate_spectra interp1d msexp start end_scan (Some (left, right)) kind
              accumulator_name
            = Inl (KeyError accumulator_name))"
proof (cases "accumulator_name = ''sum'' \<or> accumulator_name = ''mean''")
  case recognised: True
  then obtain acc where acc: "accumulator_functions accumulator_name = Some acc"
    by (auto simp: accumulator_functions_def)
  show ?thesis
  proof (cases "left > start \<or> right < end_scan")
    case True
    with recognised show ?thesis
      by (auto simp add: accumulate_spectra_def acc)
  next
    case False
    have "accumulate_spectra interp1d msexp start end_scan (Some (left, right)) kind
            accumulator_name
          \<noteq> Inl (ValueError ''subtract region outside scan region.'')"
      using False get_mz_roi_not_subtract_error[of msexp "(left, right)"]
        interp_loop_not_subtract_error[of interp1d msexp kind _ "[left .. right - 1]"]
      by (auto simp: accumulate_spectra_def acc Let_def split: sum.splits)
    with False recognised show ?thesis by auto
  qed
next
  case False
  then have none: "accumulator_functions accumulator_name = None"
    by (simp add: accumulator_functions_def)
  then have "accumulate_spectra interp1d msexp start end_scan (Some (left, right)) kind
               accumulator_name
             = Inl (KeyError accumulator_name)"
    by (simp add: accumulate_spectra_def)
  with False show ?thesis by simp
qed

text \<open>
  The check on thirty scans of three peaks: the region (16, 30) is rejected, the region
  (10, 30) is not and the call returns, and the accumulator \<open>max\<close> gives a \<open>KeyError\<close>.
\<close>

theorem accumulate_spectra_subtract_check_witness:
  "accumulate_spectra (\<lambda>mz_scan int_scan kind grid. Some (map (\<lambda>x. 5) grid))
      (replicate 30 \<lparr>getRT = 0.5, peaks_mz = [100, 101, 102], peaks_int = [10, 20, 30]\<rparr>)
      15 25 (Some (16, 30)) ''linear'' ''sum''
     = Inl (ValueError ''subtract region outside scan region.'')
   \<and> accumulate_spectra (\<lambda>mz_scan int_scan kind grid. Some (map (\<lambda>x. 5) grid))
        (replicate 30 \<lparr>getRT = 0.5, peaks_mz = [100, 101, 102], peaks_int = [10, 20, 30]\<rparr>)
        15 25 (Some (10, 30)) ''linear'' ''sum''
       \<noteq> Inl (ValueError ''subtract region outside scan region.'')
   \<and> accumulate_spectra (\<lambda>mz_scan int_scan kind grid. Some (map (\<lambda>x. 5) grid))
        (replicate 30 \<lparr>getRT = 0.5, peaks_mz = [100, 101, 102], peaks_int = [10, 20, 30]\<rparr>)
        15 25 (Some (10, 30)) ''linear'' ''sum''
       = Inr ([100, 101], [Num 0, Num 0])
   \<and> ''max'' \<noteq> ''sum'' \<and> ''max'' \<noteq> ''mean''
   \<and> accumulate_spectra (\<lambda>mz_scan int_scan kind grid. Some (map (\<lambda>x. 5) grid))
        (replicate 30 \<lparr>getRT = 0.5, peaks_mz = [100, 101, 102], peaks_int = [10, 20, 30]\<rparr>)
        15 25 (Some (10, 30)) ''linear'' ''max''
       = Inl (KeyError ''max'')"
proof -
  let ?I = "\<lambda>(mz_scan :: real list) (int_scan :: real list) (kind :: string) (grid :: real list).
              Some (map (\<lambda>x. 5 :: real) grid)"
  let ?E = "replicate 30 \<lparr>getRT = 0.5, peaks_mz = [100, 101, 102], peaks_int = [10, 20, 30]\<rparr>"
  have rejected: "accumulate_spectra ?I ?E 15 25 (Some (16, 30)) ''linear'' ''sum''
      = Inl (ValueError ''subtract region outside scan region.'')"
    using accumulate_spectra_subtract_check
            [of ?I ?E 15 25 16 30 "''linear''" "''sum''", THEN conjunct1]
    by simp
  have passed: "accumulate_spectra ?I ?E 15 25 (Some (10, 30)) ''linear'' ''sum''
      \<noteq> Inl (ValueError ''subtract region outside scan region.'')"
    using accumulate_spectra_subtract_check
            [of ?I ?E 15 25 10 30 "''linear''" "''sum''", THEN conjunct1]
    by simp
  have returned: "accumulate_spectra ?I ?E 15 25 (Some (10, 30)) ''linear'' ''sum''
      = Inr ([100, 101], [Num 0, Num 0])"
    by code_simp
  have other: "''max'' \<noteq> ''sum'' \<and> ''max'' \<noteq> ''mean''"
    by simp
  have key: "accumulate_spectra ?I ?E 15 25 (Some (10, 30)) ''linear'' ''max''
      = Inl (KeyError ''max'')"
    using accumulate_spectra_subtract_check
            [of ?I ?E 15 25 10 30 "''linear''" "''max''", THEN conjunct2]
    by simp
  from rejected passed returned other key show ?thesis
    by blast
qed

section \<open>Reference grid of the accumulator\<close>

text \<open>
  C7, as the claim states it: the bounds and the step of the grid would come from the
  masses of all the scans of the region. They come from the first scan of the region.
  The scans with the masses 100, 101, 102 and 100, 100.5, 102 give the grid 100, 101 in
  this order and the grid 100, 100.5, 101 in the other, although the region holds the
  same masses; a second scan with the masses 50, 100.5, 200 leaves the bounds at 100
  and 102.
\<close>

theorem get_mz_roi_union_counterexample:
  "get_mz_roi
     [\<lparr>getRT = 0.5, peaks_mz = [100, 101, 102], peaks_int = [10, 20, 30]\<rparr>,
      \<lparr>getRT = 1.5, peaks_mz = [100, 100.5, 102], peaks_int = [10, 15, 20]\<rparr>] (0, 2)
     = Inr [100, 101]
   \<and> get_mz_roi
       [\<lparr>getRT = 1.5, peaks_mz = [100, 100.5, 102], peaks_int = [10, 15, 20]\<rparr>,
        \<lparr>getRT = 0.5, peaks_mz = [100, 101, 102], peaks_int = [10, 20, 30]\<rparr>] (0, 2)
     = Inr [100, 100.5, 101]
   \<and> get_mz_roi
       [\<lparr>getRT = 0.5, peaks_mz = [100, 101, 102], peaks_int = [10, 20, 30]\<rparr>,
        \<lparr>getRT = 1.5, peaks_mz = [50, 100.5, 200], peaks_int = [10, 15, 20]\<rparr>] (0, 2)
     = Inr [100, 101]"
  by code_simp

text \<open>
  C7, amended. The lower bound, the upper bound and the step of the grid are the smallest
  mass, the largest mass and the smallest spacing of the first scan of the region. A
  point of this grid is retained exactly when a scan of the region has a mass whose
  insertion position in the grid is the position of the point.
\<close>

theorem get_mz_roi_first_scan_grid:
  assumes "get_mz_roi msexp (s, e) = Inr grid"
  shows "let mz_0 = peaks_mz (msexp ! nat s);
             mz_min = Min (set mz_0);
             mz_max = Max (set mz_0);
             mz_res = Min (set (np_diff mz_0));
             mz_ref = map (\<lambda>i. mz_min + real i * mz_res) [0 ..< nat \<lceil>(mz_max - mz_min) / mz_res\<rceil>]
         in grid
              = map ((!) mz_ref)
                  (filter
                     (\<lambda>i. \<exists>k\<in>{s ..< e}. \<exists>v\<in>set (peaks_mz (msexp ! nat k)).
                             np_searchsorted mz_ref v = i)
                     [0 ..< length mz_ref])"
proof -
  let ?mz_0 = "peaks_mz (msexp ! nat s)"
  from assms obtain mz_min mz_max mz_res mz_ref roi where
    mn: "np_min ?mz_0 = Inr mz_min"
    and mx: "np_max ?mz_0 = Inr mz_max"
    and rs: "np_min (np_diff ?mz_0) = Inr mz_res"
    and ar: "np_arange mz_min mz_max mz_res = Inr mz_ref"
    and lp: "roi_loop msexp mz_ref [s .. e - 1] (replicate (length mz_ref + 1) 0) = Inr roi"
    and gr: "np_mask mz_ref (butlast (map (\<lambda>c. c \<noteq> 0) roi)) = Inr grid"
    by (auto simp: get_mz_roi_def Let_def getSpectrum_def split: sum.splits if_splits)
  from mn have mn': "mz_min = Min (set ?mz_0)"
    by (auto simp: np_min_def fold_min_Min split: list.splits)
  from mx have mx': "mz_max = Max (set ?mz_0)"
    by (auto simp: np_max_def fold_max_Max split: list.splits)
  from rs have rs': "mz_res = Min (set (np_diff ?mz_0))"
    by (auto simp: np_min_def fold_min_Min split: list.splits)
  from ar have ar': "mz_ref = map (\<lambda>i. mz_min + real i * mz_res) [0 ..< nat \<lceil>(mz_max - mz_min) / mz_res\<rceil>]"
    by (auto simp: np_arange_def split: if_splits)
  have lr: "length roi = length mz_ref + 1"
    using roi_loop_flags[OF lp, THEN conjunct1] by (simp only: length_replicate)
  note fl0 = roi_loop_flags[OF lp, THEN conjunct2, unfolded length_replicate, rule_format]
  have fl: "(roi ! i \<noteq> 0)
        = (\<exists>k\<in>set [s .. e - 1]. \<exists>v\<in>set (peaks_mz (msexp ! nat k)). np_searchsorted mz_ref v = i)"
    if "i < length mz_ref + 1" for i
    using fl0[OF that] unfolding nth_replicate[OF that] by simp
  have ks: "set [s .. e - 1] = {s ..< e}" by auto
  let ?flags = "butlast (map (\<lambda>c. c \<noteq> 0) roi)"
  have lf: "length ?flags = length mz_ref" using lr by simp
  have nth: "?flags ! i
      = (\<exists>k\<in>{s ..< e}. \<exists>v\<in>set (peaks_mz (msexp ! nat k)). np_searchsorted mz_ref v = i)"
    if "i < length mz_ref" for i
  proof -
    from that have "i < length mz_ref + 1" by simp
    from fl[OF this] that lr show ?thesis
      unfolding ks by (simp add: nth_butlast)
  qed
  have "filter ((!) ?flags) [0 ..< length mz_ref]
      = filter (\<lambda>i. \<exists>k\<in>{s ..< e}. \<exists>v\<in>set (peaks_mz (msexp ! nat k)).
                             np_searchsorted mz_ref v = i) [0 ..< length mz_ref]"
  proof (rule filter_cong[OF refl])
    fix i assume "i \<in> set [0 ..< length mz_ref]"
    then have "i < length mz_ref" by simp
    then show "?flags ! i
      = (\<exists>k\<in>{s ..< e}. \<exists>v\<in>set (peaks_mz (msexp ! nat k)). np_searchsorted mz_ref v = i)"
      by (rule nth)
  qed
  with np_mask_filter[OF lf] gr have
    "grid = map ((!) mz_ref)
              (filter (\<lambda>i. \<exists>k\<in>{s ..< e}. \<exists>v\<in>set (peaks_mz (msexp ! nat k)).
                             np_searchsorted mz_ref v = i) [0 ..< length mz_ref])"
    by simp
  then show ?thesis
    unfolding Let_def ar'[symmetric, unfolded mn' mx' rs'] .
qed

theorem get_mz_roi_first_scan_grid_witness:
  "get_mz_roi
     [\<lparr>getRT = 1.5, peaks_mz = [100, 100.5, 102], peaks_int = [10, 15, 20]\<rparr>,
      \<lparr>getRT = 0.5, peaks_mz = [100, 101, 102], peaks_int = [10, 20, 30]\<rparr>] (0, 2)
     = Inr [100, 100.5, 101]
   \<and> (let msexp = [\<lparr>getRT = 1.5, peaks_mz = [100, 100.5, 102], peaks_int = [10, 15, 20]\<rparr>,
                     \<lparr>getRT = 0.5, peaks_mz = [100, 101, 102], peaks_int = [10, 20, 30]\<rparr>];
            mz_0 = peaks_mz (msexp ! nat 0);
            mz_min = Min (set mz_0);
            mz_max = Max (set mz_0);
            mz_res = Min (set (np_diff mz_0));
            mz_ref = map (\<lambda>i. mz_min + real i * mz_res) [0 ..< nat \<lceil>(mz_max - mz_min) / mz_res\<rceil>]
        in [100, 100.5, 101]
             = map ((!) mz_ref)
                 (filter
                    (\<lambda>i. \<exists>k\<in>{0 ..< 2}. \<exists>v\<in>set (peaks_mz (msexp ! nat k)).
                            np_searchsorted mz_ref v = i)
                    [0 ..< length mz_ref]))"
proof -
  have h: "get_mz_roi
     [\<lparr>getRT = 1.5, peaks_mz = [100, 100.5, 102], peaks_int = [10, 15, 20]\<rparr>,
      \<lparr>getRT = 0.5, peaks_mz = [100, 101, 102], peaks_int = [10, 20, 30]\<rparr>] (0, 2)
     = Inr [100, 100.5, 101]"
    by code_simp
  from get_mz_roi_first_scan_grid[OF h] h show ?thesis
    unfolding Let_def by blast
qed

section \<open>Unrecognised accumulator of the chromatogram\<close>

text \<open>
  C8. An accumulator other than \<open>sum\<close> and \<open>mean\<close> is to make every call fail with the
  error of the accumulator, before any part of the result is computed and whatever the
  number of scans in the range. The check is the last branch of the body of the scan
  loop. Over the one scan of an experiment the accumulator \<open>max\<close> is rejected, after the
  sums of the scan; over an empty range of the same experiment, and over an experiment
  without scans, the check is never reached and the call returns empty arrays.
\<close>

theorem chromatogram_empty_range_accepts_accumulator:
  "chromatogram [\<lparr>getRT = 0.5, peaks_mz = [100, 200], peaks_int = [10, 20]\<rparr>] [150] 1
      (Some 0) (Some 0) ''max''
     = Inr ([], [])
   \<and> chromatogram [] [150] 1 None None ''max'' = Inr ([], [])
   \<and> chromatogram [\<lparr>getRT = 0.5, peaks_mz = [100, 200], peaks_int = [10, 20]\<rparr>] [150] 1
        None None ''max''
     = Inl (ValueError ''accumulator possible values are `mean` and `sum`.'')"
  by code_simp

section \<open>Chromatogram from a positive start\<close>

text \<open>
  C10, as the claim states it: every call with \<open>start \<ge> 1\<close> and \<open>end > start\<close> would raise
  an indexing error. With \<open>start = 1\<close>, \<open>end = 3\<close> and the accumulator \<open>max\<close> the first
  pass of the loop writes at index 1 of arrays of length 2 and then raises the error of
  the accumulator.
\<close>

theorem chromatogram_positive_start_counterexample:
  "chromatogram
     (replicate 3 \<lparr>getRT = 0.5, peaks_mz = [100, 200], peaks_int = [10, 20]\<rparr>)
     [150] 1 (Some 1) (Some 3) ''max''
     = Inl (ValueError ''accumulator possible values are `mean` and `sum`.'')
   \<and> chromatogram
       (replicate 3 \<lparr>getRT = 0.5, peaks_mz = [100, 200], peaks_int = [10, 20]\<rparr>)
       [150] 1 (Some 1) (Some 3) ''max''
     \<noteq> Inl IndexError"
  by code_simp

text \<open>
  C10, amended. A call with \<open>start \<ge> 1\<close> and \<open>end > start\<close> never returns a result: the
  arrays \<open>rt\<close> and \<open>chromatograms\<close> have \<open>end - start\<close> entries and the loop writes them at
  the scan index, which reaches \<open>end - 1\<close>. With the accumulator \<open>sum\<close> or \<open>mean\<close> and all
  scans of the range in the experiment, the failure is an indexing error.
\<close>

theorem chromatogram_positive_start_fails:
  assumes "1 \<le> start" and "start < end_scan"
  shows "isl (chromatogram msexp mz window (Some start) (Some end_scan) accumulator)
         \<and> ((accumulator = ''sum'' \<or> accumulator = ''mean'') \<and> end_scan \<le> int (length msexp)
              \<longrightarrow> chromatogram msexp mz window (Some start) (Some end_scan) accumulator
                    = Inl IndexError)"
proof -
  let ?n = "nat (end_scan - start)"
  let ?rt = "replicate ?n (0 :: real)"
  let ?ch = "replicate ?n (replicate (length mz) (0 :: real))"
  let ?ivs = "concat (map (\<lambda>m. [m - window, m + window]) mz)"
  have unf: "chromatogram msexp mz window (Some start) (Some end_scan) accumulator
      = chromatogram_loop msexp ?ivs accumulator [start .. end_scan - 1] (?rt, ?ch)"
    using assms by (simp add: chromatogram_def Let_def)
  have last: "end_scan - 1 \<in> set [start .. end_scan - 1]"
    using assms by simp
  have big: "int (length ?rt) \<le> end_scan - 1"
    using assms by simp
  from last big have ex: "\<exists>k\<in>set [start .. end_scan - 1]. int (length ?rt) \<le> k"
    by blast
  have nonneg: "\<forall>k\<in>set [start .. end_scan - 1]. 0 \<le> k"
    using assms by simp
  have "isl (chromatogram_loop msexp ?ivs accumulator [start .. end_scan - 1] (?rt, ?ch))"
    using ex nonneg by (rule chromatogram_loop_fails)
  moreover have "chromatogram_loop msexp ?ivs accumulator [start .. end_scan - 1] (?rt, ?ch)
      = Inl IndexError"
    if "accumulator = ''sum'' \<or> accumulator = ''mean''" and "end_scan \<le> int (length msexp)"
  proof (rule chromatogram_loop_index_error[OF ex _ _ that(1)])
    show "\<forall>k\<in>set [start .. end_scan - 1]. 0 \<le> k \<and> k < int (length msexp)"
      using assms that(2) by simp
    show "length ?ch = length ?rt" by simp
  qed
  ultimately show ?thesis
    unfolding unf by blast
qed

theorem chromatogram_positive_start_fails_witness:
  "(1 :: int) \<le> 1 \<and> (1 :: int) < 3
   \<and> isl (chromatogram
             (replicate 3 \<lparr>getRT = 0.5, peaks_mz = [100, 200], peaks_int = [10, 20]\<rparr>)
             [150] 1 (Some 1) (Some 3) ''sum'')
   \<and> chromatogram
        (replicate 3 \<lparr>getRT = 0.5, peaks_mz = [100, 200], peaks_int = [10, 20]\<rparr>)
        [150] 1 (Some 1) (Some 3) ''sum''
       = Inl IndexError"
  using chromatogram_positive_start_fails
          [where start = 1 and end_scan = 3
             and msexp = "replicate 3 \<lparr>getRT = 0.5, peaks_mz = [100, 200], peaks_int = [10, 20]\<rparr>"
             and mz = "[150]" and window = 1 and accumulator = "''sum''"]
  by simp

end
